theory Spec2Isabelle
  imports Main "HOL-Library.Word"
begin

section \<open>Data model\<close>

text \<open>
  The tables of the relational store, as the migrations declare them. Identifiers are
  text, instants are JavaScript \<open>Date\<close> values read through \<open>getTime()\<close>: whole
  milliseconds since the epoch, an integer.
\<close>

type_synonym user_id = string
type_synonym ident = string
type_synonym time_ms = int

text \<open>
  A free text of a request or a row is a JavaScript string: a sequence of UTF-16 code
  units.
\<close>

type_synonym code_unit = "16 word"
type_synonym js_string = "code_unit list"

datatype session_mode = Stopwatch | Timer | Pomodoro

datatype pomodoro_phase = Work | ShortBreak | LongBreak

record project =
  p_id :: ident
  p_name :: string
  p_color :: string
  p_userId :: user_id

text \<open>The projection \<open>select: { id, name, color }\<close> of a joined project.\<close>

record project_summary =
  ps_id :: ident
  ps_name :: string
  ps_color :: string

record active_session =
  as_id :: ident
  as_startTime :: time_ms
  as_mode :: session_mode
  as_description :: "js_string option"
  as_targetSeconds :: "int option"
  as_pomodoroPhase :: "pomodoro_phase option"
  as_pomodoroCycle :: int
  as_projectId :: "ident option"
  as_userId :: user_id

record time_session =
  ts_id :: ident
  ts_description :: "js_string option"
  ts_startTime :: time_ms
  ts_endTime :: time_ms
  ts_durationSeconds :: int
  ts_mode :: session_mode
  ts_projectId :: "ident option"
  ts_userId :: user_id

text \<open>
  The store. \<open>ActiveSession\<close> has a unique index on \<open>userId\<close> and every access of the
  handlers is \<open>where: { userId }\<close>, so the table is a map from the user to the slot.
  \<open>TimeSession\<close> rows are kept in insertion order.
\<close>

record db =
  activeSessions :: "user_id \<rightharpoonup> active_session"
  timeSessions :: "time_session list"
  projects :: "project list"

text \<open>
  A field of a Prisma \<open>data\<close> object: left \<open>undefined\<close>, set to \<open>null\<close>, or set to a
  value. On \<open>create\<close> an undefined optional column is stored as NULL; on \<open>update\<close> an
  undefined field is not written and the column keeps its value.
\<close>

datatype 'a field = Undefined | Null | Value 'a

fun create_field :: "'a field \<Rightarrow> 'a option" where
  "create_field Undefined = None"
| "create_field Null = None"
| "create_field (Value v) = Some v"

fun update_field :: "'a field \<Rightarrow> 'a option \<Rightarrow> 'a option" where
  "update_field Undefined old = old"
| "update_field Null old = None"
| "update_field (Value v) old = Some v"

section \<open>Errors and store failures\<close>

text \<open>
  The responses that are not a success. \<open>InternalError\<close> is an exception handed to
  \<open>next(error)\<close>, which the error handler answers with status 500.
\<close>

datatype error =
    ValidationError
  | ProjectNotFound
  | NoActiveSession
  | InvalidDuration
  | SessionNotFound
  | InvalidStartDate
  | InvalidEndDate
  | EndBeforeStart
  | InternalError

fun status :: "error \<Rightarrow> nat" where
  "status ValidationError = 400"
| "status ProjectNotFound = 404"
| "status NoActiveSession = 404"
| "status InvalidDuration = 400"
| "status SessionNotFound = 404"
| "status InvalidStartDate = 400"
| "status InvalidEndDate = 400"
| "status EndBeforeStart = 400"
| "status InternalError = 500"

text \<open>
  Any call of the store may throw. Which calls do is an input of the model: a predicate
  on the operations of the store.
\<close>

datatype store_op =
    FindProject
  | FindActive
  | UpsertActive
  | DeleteActive
  | CreateTimeSession
  | FindTimeSession
  | UpdateTimeSession

type_synonym faults = "store_op \<Rightarrow> bool"

section \<open>Store operations\<close>

definition project_findFirst ::
  "faults \<Rightarrow> db \<Rightarrow> ident \<Rightarrow> user_id \<Rightarrow> error + project option" where
  "project_findFirst F d pid uid =
     (if F FindProject then Inl InternalError
      else Inr (find (\<lambda>p. p_id p = pid \<and> p_userId p = uid) (projects d)))"

text \<open>The join \<open>include: { project: { select: ... } }\<close> on a row's project reference.\<close>

definition include_project :: "db \<Rightarrow> ident option \<Rightarrow> project_summary option" where
  "include_project d ref =
     (case ref of
        None \<Rightarrow> None
      | Some pid \<Rightarrow>
          (case find (\<lambda>p. p_id p = pid) (projects d) of
             None \<Rightarrow> None
           | Some p \<Rightarrow> Some \<lparr>ps_id = p_id p, ps_name = p_name p, ps_color = p_color p\<rparr>))"

definition activeSession_findUnique ::
  "faults \<Rightarrow> db \<Rightarrow> user_id \<Rightarrow> error + active_session option" where
  "activeSession_findUnique F d uid =
     (if F FindActive then Inl InternalError else Inr (activeSessions d uid))"

text \<open>\<open>delete\<close> throws when the row does not exist.\<close>

definition activeSession_delete :: "faults \<Rightarrow> db \<Rightarrow> user_id \<Rightarrow> error + db" where
  "activeSession_delete F d uid =
     (if F DeleteActive \<or> activeSessions d uid = None then Inl InternalError
      else Inr (d\<lparr>activeSessions := (activeSessions d)(uid := None)\<rparr>))"

text \<open>The \<open>data\<close> object handed to \<open>timeSession.create\<close>.\<close>

record session_data =
  sd_description :: "js_string field"
  sd_startTime :: time_ms
  sd_endTime :: time_ms
  sd_durationSeconds :: int
  sd_mode :: session_mode
  sd_userId :: user_id
  sd_projectId :: "ident field"

text \<open>
  \<open>timeSession.create\<close> with the identifier the client generates for the row. The
  identifier is the primary key: the insert throws when a row already has it.
\<close>

definition create_throws :: "faults \<Rightarrow> db \<Rightarrow> ident \<Rightarrow> bool" where
  "create_throws F d newId = (F CreateTimeSession \<or> newId \<in> ts_id ` set (timeSessions d))"

definition timeSession_create ::
  "faults \<Rightarrow> db \<Rightarrow> ident \<Rightarrow> session_data \<Rightarrow> error + (time_session \<times> db)" where
  "timeSession_create F d newId sd =
     (if create_throws F d newId then Inl InternalError
      else
        let row = \<lparr>ts_id = newId,
                   ts_description = create_field (sd_description sd),
                   ts_startTime = sd_startTime sd,
                   ts_endTime = sd_endTime sd,
                   ts_durationSeconds = sd_durationSeconds sd,
                   ts_mode = sd_mode sd,
                   ts_projectId = create_field (sd_projectId sd),
                   ts_userId = sd_userId sd\<rparr>
        in Inr (row, d\<lparr>timeSessions := timeSessions d @ [row]\<rparr>))"

text \<open>
  \<open>prisma.$transaction\<close>: the callback runs on the store; when it throws, nothing it
  wrote is kept and the exception goes on to the caller.
\<close>

definition transaction :: "db \<Rightarrow> (db \<Rightarrow> error + ('a \<times> db)) \<Rightarrow> (error + 'a) \<times> db" where
  "transaction d body =
     (case body d of
        Inl e \<Rightarrow> (Inl e, d)
      | Inr (r, d') \<Rightarrow> (Inr r, d'))"

section \<open>Strings\<close>

text \<open>
  \<open>String.prototype.trim\<close> removes, at both ends, the code units of ECMAScript's
  WhiteSpace and LineTerminator: TAB, LF, VT, FF, CR, SP, NBSP (U+00A0), U+1680, U+2000
  to U+200A, LS and PS (U+2028, U+2029), U+202F, U+205F, U+3000 and the byte order mark
  U+FEFF. All of them are single code units.
\<close>

definition is_space :: "code_unit \<Rightarrow> bool" where
  "is_space c =
     (c \<in> {0x0009, 0x000A, 0x000B, 0x000C, 0x000D, 0x0020, 0x00A0, 0x1680,
            0x2028, 0x2029, 0x202F, 0x205F, 0x3000, 0xFEFF} \<or>
      (0x2000 \<le> c \<and> c \<le> 0x200A))"

definition trim :: "js_string \<Rightarrow> js_string" where
  "trim s = rev (dropWhile is_space (rev (dropWhile is_space s)))"

section \<open>Stopping the active session\<close>

text \<open>
  A handler returns its response, the store it leaves, and the users for whom it called
  \<open>activeSessionEmitter.notifyActiveSessionChange\<close>, in order.
\<close>

type_synonym 'a outcome = "(error + 'a) \<times> db \<times> user_id list"

definition elapsed_seconds :: "time_ms \<Rightarrow> time_ms \<Rightarrow> int" where
  "elapsed_seconds now start = (now - start) div 1000"

definition stop_sessionData :: "active_session \<Rightarrow> time_ms \<Rightarrow> int \<Rightarrow> user_id \<Rightarrow> session_data" where
  "stop_sessionData a endTime duration uid =
     \<lparr>sd_description =
        (case as_description a of
           None \<Rightarrow> Undefined
         | Some s \<Rightarrow> if s \<noteq> [] \<and> trim s \<noteq> [] then Value (trim s) else Undefined),
      sd_startTime = as_startTime a,
      sd_endTime = endTime,
      sd_durationSeconds = duration,
      sd_mode = as_mode a,
      sd_userId = uid,
      sd_projectId =
        (case as_projectId a of
           None \<Rightarrow> Null
         | Some p \<Rightarrow> if p = [] then Null else Value p)\<rparr>"

text \<open>\<open>router.delete('/active')\<close>; \<open>now\<close> is the clock read by \<open>new Date()\<close>.\<close>

definition stopActive ::
  "faults \<Rightarrow> time_ms \<Rightarrow> ident \<Rightarrow> user_id \<Rightarrow> db
     \<Rightarrow> (time_session \<times> project_summary option) outcome" where
  "stopActive F now newId uid d =
     (case activeSession_findUnique F d uid of
        Inl e \<Rightarrow> (Inl e, d, [])
      | Inr None \<Rightarrow> (Inl NoActiveSession, d, [])
      | Inr (Some a) \<Rightarrow>
          let endTime = now;
              duration = elapsed_seconds endTime (as_startTime a)
          in if duration \<le> 0 then
               (case activeSession_delete F d uid of
                  Inl e \<Rightarrow> (Inl e, d, [])
                | Inr d' \<Rightarrow> (Inl InvalidDuration, d', []))
             else
               (case transaction d
                       (\<lambda>tx. case timeSession_create F tx newId
                                     (stop_sessionData a endTime duration uid) of
                                Inl e \<Rightarrow> Inl e
                              | Inr (row, tx1) \<Rightarrow>
                                  (case activeSession_delete F tx1 uid of
                                     Inl e \<Rightarrow> Inl e
                                   | Inr tx2 \<Rightarrow>
                                       Inr ((row, include_project tx1 (ts_projectId row)), tx2))) of
                  (Inl e, d') \<Rightarrow> (Inl e, d', [])
                | (Inr r, d') \<Rightarrow> (Inr r, d', [uid])))"

section \<open>Starting or replacing the active session\<close>

text \<open>
  The body of \<open>POST /sessions/active\<close> after \<open>activeSessionSchema\<close>. The start time
  is the instant of the ISO string the schema accepted, the mode is one of the enum. An
  optional key is \<open>None\<close> or \<open>Undefined\<close> when the request leaves it out.
\<close>

record active_body =
  ab_startTime :: time_ms
  ab_mode :: session_mode
  ab_projectId :: "ident field"
  ab_description :: "js_string option"
  ab_targetSeconds :: "int field"
  ab_pomodoroPhase :: "pomodoro_phase field"
  ab_pomodoroCycle :: "int option"

text \<open>What is left of \<open>activeSessionSchema.parse\<close>: the \<open>min\<close> constraints.\<close>

definition activeSessionSchema :: "active_body \<Rightarrow> bool" where
  "activeSessionSchema b =
     ((case ab_projectId b of Value p \<Rightarrow> 1 \<le> length p | _ \<Rightarrow> True) \<and>
      (case ab_targetSeconds b of Value n \<Rightarrow> 0 \<le> n | _ \<Rightarrow> True) \<and>
      (case ab_pomodoroCycle b of Some c \<Rightarrow> 0 \<le> c | None \<Rightarrow> True))"

record active_data =
  ad_startTime :: time_ms
  ad_mode :: session_mode
  ad_userId :: user_id
  ad_pomodoroCycle :: int
  ad_description :: "js_string field"
  ad_projectId :: "ident field"
  ad_targetSeconds :: "int field"
  ad_pomodoroPhase :: "pomodoro_phase field"

text \<open>JavaScript truthiness of an optional, nullable string.\<close>

fun truthy :: "string field \<Rightarrow> bool" where
  "truthy (Value p) = (p \<noteq> [])"
| "truthy _ = False"

definition activeSessionData :: "active_body \<Rightarrow> user_id \<Rightarrow> active_data" where
  "activeSessionData b uid =
     \<lparr>ad_startTime = ab_startTime b,
      ad_mode = ab_mode b,
      ad_userId = uid,
      ad_pomodoroCycle = (case ab_pomodoroCycle b of None \<Rightarrow> 0 | Some c \<Rightarrow> c),
      ad_description =
        (case ab_description b of
           None \<Rightarrow> Undefined
         | Some s \<Rightarrow> if s \<noteq> [] \<and> trim s \<noteq> [] then Value (trim s) else Undefined),
      ad_projectId =
        (case ab_projectId b of
           Value p \<Rightarrow> if p = [] then Null else Value p
         | _ \<Rightarrow> Null),
      ad_targetSeconds = ab_targetSeconds b,
      ad_pomodoroPhase = ab_pomodoroPhase b\<rparr>"

text \<open>
  \<open>activeSession.upsert\<close> with the same object as \<open>update\<close> and as \<open>create\<close>: a new row
  when the user has none, otherwise the existing row with the defined fields written.
\<close>

definition activeSession_upsert ::
  "faults \<Rightarrow> db \<Rightarrow> ident \<Rightarrow> user_id \<Rightarrow> active_data \<Rightarrow> error + (active_session \<times> db)" where
  "activeSession_upsert F d newId uid ad =
     (if F UpsertActive then Inl InternalError
      else
        let row =
              (case activeSessions d uid of
                 None \<Rightarrow>
                   \<lparr>as_id = newId,
                    as_startTime = ad_startTime ad,
                    as_mode = ad_mode ad,
                    as_description = create_field (ad_description ad),
                    as_targetSeconds = create_field (ad_targetSeconds ad),
                    as_pomodoroPhase = create_field (ad_pomodoroPhase ad),
                    as_pomodoroCycle = ad_pomodoroCycle ad,
                    as_projectId = create_field (ad_projectId ad),
                    as_userId = ad_userId ad\<rparr>
               | Some old \<Rightarrow>
                   old\<lparr>as_startTime := ad_startTime ad,
                       as_mode := ad_mode ad,
                       as_description := update_field (ad_description ad) (as_description old),
                       as_targetSeconds := update_field (ad_targetSeconds ad) (as_targetSeconds old),
                       as_pomodoroPhase := update_field (ad_pomodoroPhase ad) (as_pomodoroPhase old),
                       as_pomodoroCycle := ad_pomodoroCycle ad,
                       as_projectId := update_field (ad_projectId ad) (as_projectId old),
                       as_userId := ad_userId ad\<rparr>)
        in Inr (row, d\<lparr>activeSessions := (activeSessions d)(uid \<mapsto> row)\<rparr>))"

text \<open>The ownership check on a supplied project reference, shared by the handlers.\<close>

definition check_project :: "faults \<Rightarrow> db \<Rightarrow> ident field \<Rightarrow> user_id \<Rightarrow> error option" where
  "check_project F d ref uid =
     (case ref of
        Value p \<Rightarrow>
          (if p = [] then None
           else (case project_findFirst F d p uid of
                   Inl e \<Rightarrow> Some e
                 | Inr None \<Rightarrow> Some ProjectNotFound
                 | Inr (Some _) \<Rightarrow> None))
      | _ \<Rightarrow> None)"

text \<open>\<open>router.post('/active')\<close>.\<close>

definition upsertActive ::
  "faults \<Rightarrow> ident \<Rightarrow> user_id \<Rightarrow> active_body \<Rightarrow> db
     \<Rightarrow> (active_session \<times> project_summary option) outcome" where
  "upsertActive F newId uid b d =
     (if \<not> activeSessionSchema b then (Inl ValidationError, d, [])
      else
        (case check_project F d (ab_projectId b) uid of
           Some e \<Rightarrow> (Inl e, d, [])
         | None \<Rightarrow>
             (case activeSession_upsert F d newId uid (activeSessionData b uid) of
                Inl e \<Rightarrow> (Inl e, d, [])
              | Inr (row, d') \<Rightarrow>
                  (Inr (row, include_project d' (as_projectId row)), d', [uid]))))"

text \<open>\<open>router.get('/active')\<close>: a lookup.\<close>

definition getActive ::
  "faults \<Rightarrow> user_id \<Rightarrow> db \<Rightarrow> (active_session \<times> project_summary option) outcome" where
  "getActive F uid d =
     (case activeSession_findUnique F d uid of
        Inl e \<Rightarrow> (Inl e, d, [])
      | Inr None \<Rightarrow> (Inl NoActiveSession, d, [])
      | Inr (Some a) \<Rightarrow> (Inr (a, include_project d (as_projectId a)), d, []))"

section \<open>Creating and updating historical sessions\<close>

record create_body =
  cb_projectId :: "ident field"
  cb_description :: "js_string option"
  cb_startTime :: time_ms
  cb_endTime :: time_ms
  cb_durationSeconds :: int
  cb_mode :: session_mode

definition createSessionSchema :: "create_body \<Rightarrow> bool" where
  "createSessionSchema b =
     ((case cb_projectId b of Value p \<Rightarrow> 1 \<le> length p | _ \<Rightarrow> True) \<and>
      0 \<le> cb_durationSeconds b)"

definition create_sessionData :: "create_body \<Rightarrow> user_id \<Rightarrow> session_data" where
  "create_sessionData b uid =
     \<lparr>sd_description = (case cb_description b of None \<Rightarrow> Undefined | Some s \<Rightarrow> Value s),
      sd_startTime = cb_startTime b,
      sd_endTime = cb_endTime b,
      sd_durationSeconds = cb_durationSeconds b,
      sd_mode = cb_mode b,
      sd_userId = uid,
      sd_projectId = (if truthy (cb_projectId b) then cb_projectId b else Null)\<rparr>"

text \<open>\<open>router.post('/')\<close>.\<close>

definition createSession ::
  "faults \<Rightarrow> ident \<Rightarrow> user_id \<Rightarrow> create_body \<Rightarrow> db
     \<Rightarrow> (time_session \<times> project_summary option) outcome" where
  "createSession F newId uid b d =
     (if \<not> createSessionSchema b then (Inl ValidationError, d, [])
      else
        (case check_project F d (cb_projectId b) uid of
           Some e \<Rightarrow> (Inl e, d, [])
         | None \<Rightarrow>
             (case timeSession_create F d newId (create_sessionData b uid) of
                Inl e \<Rightarrow> (Inl e, d, [])
              | Inr (row, d') \<Rightarrow>
                  (Inr (row, include_project d' (ts_projectId row)), d', []))))"

text \<open>
  The body of \<open>PATCH /sessions/:id\<close>. The two times are strings the schema does not
  check; \<open>new Date(s).getTime()\<close> is the parameter \<open>parseDate\<close> of the handler, \<open>None\<close>
  where it is \<open>NaN\<close>.
\<close>

record update_body =
  ub_description :: "js_string option"
  ub_projectId :: "ident field"
  ub_startTime :: "string option"
  ub_endTime :: "string option"

definition updateSessionSchema :: "update_body \<Rightarrow> bool" where
  "updateSessionSchema b = (case ub_projectId b of Value p \<Rightarrow> 1 \<le> length p | _ \<Rightarrow> True)"

record update_data =
  ud_description :: "js_string field"
  ud_projectId :: "ident field"
  ud_startTime :: "time_ms option"
  ud_endTime :: "time_ms option"
  ud_durationSeconds :: "int option"

definition timeSession_findFirst ::
  "faults \<Rightarrow> db \<Rightarrow> ident \<Rightarrow> user_id \<Rightarrow> error + time_session option" where
  "timeSession_findFirst F d sid uid =
     (if F FindTimeSession then Inl InternalError
      else Inr (find (\<lambda>r. ts_id r = sid \<and> ts_userId r = uid) (timeSessions d)))"

definition apply_update :: "update_data \<Rightarrow> time_session \<Rightarrow> time_session" where
  "apply_update ud r =
     r\<lparr>ts_description := update_field (ud_description ud) (ts_description r),
       ts_projectId := update_field (ud_projectId ud) (ts_projectId r),
       ts_startTime := (case ud_startTime ud of None \<Rightarrow> ts_startTime r | Some t \<Rightarrow> t),
       ts_endTime := (case ud_endTime ud of None \<Rightarrow> ts_endTime r | Some t \<Rightarrow> t),
       ts_durationSeconds :=
         (case ud_durationSeconds ud of None \<Rightarrow> ts_durationSeconds r | Some n \<Rightarrow> n)\<rparr>"

text \<open>\<open>timeSession.update\<close> by primary key; it throws when no row has the key.\<close>

definition timeSession_update ::
  "faults \<Rightarrow> db \<Rightarrow> ident \<Rightarrow> update_data \<Rightarrow> error + (time_session \<times> db)" where
  "timeSession_update F d sid ud =
     (if F UpdateTimeSession then Inl InternalError
      else
        (case find (\<lambda>r. ts_id r = sid) (timeSessions d) of
           None \<Rightarrow> Inl InternalError
         | Some r \<Rightarrow>
             Inr (apply_update ud r,
                  d\<lparr>timeSessions :=
                       map (\<lambda>x. if ts_id x = sid then apply_update ud x else x)
                         (timeSessions d)\<rparr>)))"

text \<open>A time of the body that is present and not the empty string.\<close>

fun supplied :: "string option \<Rightarrow> bool" where
  "supplied (Some s) = (s \<noteq> [])"
| "supplied None = False"

text \<open>
  A time after the update: the one of the existing row, unless the body supplies a
  string, and then \<open>new Date\<close> of the string, \<open>None\<close> when it is invalid.
\<close>

definition new_time :: "(string \<Rightarrow> time_ms option) \<Rightarrow> string option \<Rightarrow> time_ms \<Rightarrow> time_ms option" where
  "new_time parseDate x existing =
     (case x of
        None \<Rightarrow> Some existing
      | Some s \<Rightarrow> if s = [] then Some existing else parseDate s)"

text \<open>
  The part of \<open>router.patch('/:id')\<close> between the checks and the write: the update
  object, or the 400 response.
\<close>

definition updateData ::
  "(string \<Rightarrow> time_ms option) \<Rightarrow> update_body \<Rightarrow> time_session \<Rightarrow> error + update_data" where
  "updateData parseDate b existing =
     (let description = (case ub_description b of None \<Rightarrow> Undefined | Some s \<Rightarrow> Value s);
          projectId =
            (case ub_projectId b of
               Undefined \<Rightarrow> Undefined
             | Null \<Rightarrow> Null
             | Value p \<Rightarrow> if p = [] then Null else Value p);
          start = new_time parseDate (ub_startTime b) (ts_startTime existing);
          end = new_time parseDate (ub_endTime b) (ts_endTime existing)
      in case start of
           None \<Rightarrow> Inl InvalidStartDate
         | Some newStartTime \<Rightarrow>
             (case end of
                None \<Rightarrow> Inl InvalidEndDate
              | Some newEndTime \<Rightarrow>
                  (if supplied (ub_startTime b) \<or> supplied (ub_endTime b) then
                     (let durationSeconds = (newEndTime - newStartTime) div 1000
                      in if durationSeconds < 0 then Inl EndBeforeStart
                         else Inr \<lparr>ud_description = description,
                                   ud_projectId = projectId,
                                   ud_startTime =
                                     (if supplied (ub_startTime b) then Some newStartTime else None),
                                   ud_endTime =
                                     (if supplied (ub_endTime b) then Some newEndTime else None),
                                   ud_durationSeconds = Some durationSeconds\<rparr>)
                   else Inr \<lparr>ud_description = description,
                             ud_projectId = projectId,
                             ud_startTime = None,
                             ud_endTime = None,
                             ud_durationSeconds = None\<rparr>)))"

text \<open>\<open>router.patch('/:id')\<close>.\<close>

definition updateSession ::
  "faults \<Rightarrow> (string \<Rightarrow> time_ms option) \<Rightarrow> user_id \<Rightarrow> ident \<Rightarrow> update_body \<Rightarrow> db
     \<Rightarrow> (time_session \<times> project_summary option) outcome" where
  "updateSession F parseDate uid sid b d =
     (if \<not> updateSessionSchema b then (Inl ValidationError, d, [])
      else
        (case timeSession_findFirst F d sid uid of
           Inl e \<Rightarrow> (Inl e, d, [])
         | Inr None \<Rightarrow> (Inl SessionNotFound, d, [])
         | Inr (Some existing) \<Rightarrow>
             (case check_project F d (ub_projectId b) uid of
                Some e \<Rightarrow> (Inl e, d, [])
              | None \<Rightarrow>
                  (case updateData parseDate b existing of
                     Inl e \<Rightarrow> (Inl e, d, [])
                   | Inr ud \<Rightarrow>
                       (case timeSession_update F d sid ud of
                          Inl e \<Rightarrow> (Inl e, d, [])
                        | Inr (row, d') \<Rightarrow>
                            (Inr (row, include_project d' (ts_projectId row)), d', []))))))"

section \<open>The stream of the active session\<close>

text \<open>
  The events of \<open>GET /sessions/active/stream\<close>. The start time of an active payload is
  the instant that \<open>toISOString\<close> prints.
\<close>

record active_payload =
  ap_id :: ident
  ap_startTime :: time_ms
  ap_mode :: session_mode
  ap_projectId :: "ident option"
  ap_description :: "js_string option"
  ap_targetSeconds :: "int option"
  ap_pomodoroPhase :: "pomodoro_phase option"
  ap_pomodoroCycle :: int
  ap_project :: "project_summary option"
  ap_elapsedSeconds :: int

text \<open>
  \<open>{ active: true, ... }\<close>, \<open>{ active: false, elapsedSeconds }\<close> and
  \<open>{ active: false, error }\<close>.
\<close>

datatype payload =
    ActivePayload active_payload
  | InactivePayload int
  | ErrorPayload

type_synonym active_row = "active_session \<times> project_summary option"

text \<open>
  The variables of one connection: \<open>cachedState\<close> (\<open>None\<close> is \<open>null\<close>, \<open>Some r\<close> is
  \<open>{ activeSession: r }\<close>), \<open>lastQueryTime\<close> and \<open>isClosed\<close>; with them the events
  written to the response, in order, and the number of \<open>findUnique\<close> calls made.
\<close>

record stream =
  st_userId :: user_id
  cachedState :: "active_row option option"
  lastQueryTime :: time_ms
  isClosed :: bool
  sent :: "payload list"
  queries :: nat

definition QUERY_CACHE_MS :: int where
  "QUERY_CACHE_MS = 100"

definition sendEvent :: "payload \<Rightarrow> stream \<Rightarrow> stream" where
  "sendEvent p st = st\<lparr>sent := sent st @ [p]\<rparr>"

definition render :: "active_row \<Rightarrow> int \<Rightarrow> payload" where
  "render r elapsedSeconds =
     (case r of (a, proj) \<Rightarrow>
        ActivePayload
          \<lparr>ap_id = as_id a,
           ap_startTime = as_startTime a,
           ap_mode = as_mode a,
           ap_projectId = as_projectId a,
           ap_description = as_description a,
           ap_targetSeconds = as_targetSeconds a,
           ap_pomodoroPhase = as_pomodoroPhase a,
           ap_pomodoroCycle = as_pomodoroCycle a,
           ap_project = proj,
           ap_elapsedSeconds = elapsedSeconds\<rparr>)"

text \<open>\<open>activeSession.findUnique\<close> with the project joined.\<close>

definition activeSession_findUnique_include ::
  "faults \<Rightarrow> db \<Rightarrow> user_id \<Rightarrow> error + active_row option" where
  "activeSession_findUnique_include F d uid =
     (case activeSession_findUnique F d uid of
        Inl e \<Rightarrow> Inl e
      | Inr None \<Rightarrow> Inr None
      | Inr (Some a) \<Rightarrow> Inr (Some (a, include_project d (as_projectId a))))"

text \<open>The event for a fetched or cached slot, at the clock \<open>currentTime\<close>.\<close>

definition state_event :: "active_row option \<Rightarrow> time_ms \<Rightarrow> payload" where
  "state_event slot currentTime =
     (case slot of
        Some r \<Rightarrow> render r (elapsed_seconds currentTime (as_startTime (fst r)))
      | None \<Rightarrow> InactivePayload 0)"

text \<open>
  \<open>sendCurrentState\<close>: \<open>now\<close> is \<open>Date.now()\<close> at entry, \<open>d\<close> the store at the query,
  \<open>currentTime\<close> the clock read after it. An exception of the query is caught, after
  which neither the cache nor the time of the last query has been written.
\<close>

definition sendCurrentState ::
  "faults \<Rightarrow> db \<Rightarrow> bool \<Rightarrow> time_ms \<Rightarrow> time_ms \<Rightarrow> stream \<Rightarrow> stream" where
  "sendCurrentState F d forceQuery now currentTime st =
     (let shouldQuery = forceQuery \<or> now - lastQueryTime st > QUERY_CACHE_MS;
          activeSession = (case cachedState st of None \<Rightarrow> None | Some slot \<Rightarrow> slot)
      in if shouldQuery then
           (case activeSession_findUnique_include F d (st_userId st) of
              Inl e \<Rightarrow> sendEvent ErrorPayload (st\<lparr>queries := Suc (queries st)\<rparr>)
            | Inr fetched \<Rightarrow>
                sendEvent (state_event fetched currentTime)
                  (st\<lparr>queries := Suc (queries st),
                      cachedState := Some fetched,
                      lastQueryTime := now\<rparr>))
         else sendEvent (state_event activeSession currentTime) st)"

text \<open>Opening a connection: the variables are initialised and the first state is sent.\<close>

definition openStream :: "faults \<Rightarrow> db \<Rightarrow> user_id \<Rightarrow> time_ms \<Rightarrow> time_ms \<Rightarrow> stream" where
  "openStream F d uid now currentTime =
     sendCurrentState F d True now currentTime
       \<lparr>st_userId = uid, cachedState = None, lastQueryTime = 0, isClosed = False,
        sent = [], queries = 0\<rparr>"

text \<open>
  \<open>onChangeHandler\<close>, called by the emitter for every notification while the listener
  is registered; \<open>cleanup\<close> removes it.
\<close>

definition onChangeHandler ::
  "faults \<Rightarrow> db \<Rightarrow> user_id \<Rightarrow> time_ms \<Rightarrow> time_ms \<Rightarrow> stream \<Rightarrow> stream" where
  "onChangeHandler F d changedUserId now currentTime st =
     (if isClosed st then st
      else if changedUserId = st_userId st then sendCurrentState F d True now currentTime st
      else st)"

text \<open>The callback of \<open>setInterval\<close>, run every second; \<open>now\<close> is its \<open>new Date()\<close>.\<close>

definition tick :: "time_ms \<Rightarrow> stream \<Rightarrow> stream" where
  "tick now st =
     (if isClosed st then st
      else
        (case cachedState st of
           Some (Some r) \<Rightarrow> sendEvent (render r (elapsed_seconds now (as_startTime (fst r)))) st
         | _ \<Rightarrow> st))"

definition cleanup :: "stream \<Rightarrow> stream" where
  "cleanup st = st\<lparr>isClosed := True\<rparr>"

text \<open>
  A run of change notifications reaching one connection, each with the store and the
  two clock readings of its call.
\<close>

fun onChanges :: "faults \<Rightarrow> user_id \<Rightarrow> (db \<times> time_ms \<times> time_ms) list \<Rightarrow> stream \<Rightarrow> stream" where
  "onChanges F changedUserId [] st = st"
| "onChanges F changedUserId ((d, now, currentTime) # es) st =
     onChanges F changedUserId es (onChangeHandler F d changedUserId now currentTime st)"

section \<open>States of the register and sample data\<close>

text \<open>
  The form in which \<open>router.post('/active')\<close>, the only writer of the table, leaves a
  slot: a description is stored trimmed and not blank, a project reference is not the
  empty string.
\<close>

definition slot_normal :: "active_session \<Rightarrow> bool" where
  "slot_normal a =
     ((case as_description a of None \<Rightarrow> True | Some s \<Rightarrow> s \<noteq> [] \<and> trim s = s) \<and>
      as_projectId a \<noteq> Some [])"

text \<open>
  The historical row that the specification describes for a promotion: start time, mode,
  project and description copied from the active session, the end time the moment of the
  stop, the duration the elapsed whole seconds.
\<close>

definition promoted_session :: "active_session \<Rightarrow> time_ms \<Rightarrow> ident \<Rightarrow> user_id \<Rightarrow> time_session" where
  "promoted_session a now newId uid =
     \<lparr>ts_id = newId,
      ts_description = as_description a,
      ts_startTime = as_startTime a,
      ts_endTime = now,
      ts_durationSeconds = elapsed_seconds now (as_startTime a),
      ts_mode = as_mode a,
      ts_projectId = as_projectId a,
      ts_userId = uid\<rparr>"

text \<open>The code units of a text of ASCII characters.\<close>

definition ascii :: "string \<Rightarrow> js_string" where
  "ascii s = map of_char s"

definition no_faults :: faults where
  "no_faults = (\<lambda>_. False)"

definition create_fails :: faults where
  "create_fails = (\<lambda>x. x = CreateTimeSession)"

definition empty_db :: db where
  "empty_db = \<lparr>activeSessions = Map.empty, timeSessions = [], projects = []\<rparr>"

definition sample_slot :: active_session where
  "sample_slot =
     \<lparr>as_id = ''a1'',
      as_startTime = 1000,
      as_mode = Pomodoro,
      as_description = Some (ascii ''write''),
      as_targetSeconds = Some 1500,
      as_pomodoroPhase = Some Work,
      as_pomodoroCycle = 0,
      as_projectId = None,
      as_userId = ''u1''\<rparr>"

definition sample_db :: db where
  "sample_db =
     \<lparr>activeSessions = [''u1'' \<mapsto> sample_slot], timeSessions = [], projects = []\<rparr>"

text \<open>A start request with every optional key, and a second one with none.\<close>

definition first_body :: active_body where
  "first_body =
     \<lparr>ab_startTime = 1000,
      ab_mode = Pomodoro,
      ab_projectId = Undefined,
      ab_description = Some (ascii ''write''),
      ab_targetSeconds = Value 1500,
      ab_pomodoroPhase = Value Work,
      ab_pomodoroCycle = Some 2\<rparr>"

definition second_body :: active_body where
  "second_body =
     \<lparr>ab_startTime = 5000,
      ab_mode = Stopwatch,
      ab_projectId = Undefined,
      ab_description = None,
      ab_targetSeconds = Undefined,
      ab_pomodoroPhase = Undefined,
      ab_pomodoroCycle = None\<rparr>"

text \<open>A request whose description is padded with no-break spaces.\<close>

definition padded_body :: active_body where
  "padded_body =
     \<lparr>ab_startTime = 7000,
      ab_mode = Timer,
      ab_projectId = Null,
      ab_description = Some (0x00A0 # ascii ''read'' @ [0x00A0]),
      ab_targetSeconds = Null,
      ab_pomodoroPhase = Value ShortBreak,
      ab_pomodoroCycle = Some 3\<rparr>"

text \<open>The slot after the first request, and after the second one on top of it.\<close>

definition first_row :: active_session where
  "first_row =
     \<lparr>as_id = ''a1'',
      as_startTime = 1000,
      as_mode = Pomodoro,
      as_description = Some (ascii ''write''),
      as_targetSeconds = Some 1500,
      as_pomodoroPhase = Some Work,
      as_pomodoroCycle = 2,
      as_projectId = None,
      as_userId = ''u1''\<rparr>"

definition merged_row :: active_session where
  "merged_row =
     \<lparr>as_id = ''a1'',
      as_startTime = 5000,
      as_mode = Stopwatch,
      as_description = Some (ascii ''write''),
      as_targetSeconds = Some 1500,
      as_pomodoroPhase = Some Work,
      as_pomodoroCycle = 0,
      as_projectId = None,
      as_userId = ''u1''\<rparr>"

definition first_db :: db where
  "first_db = \<lparr>activeSessions = [''u1'' \<mapsto> first_row], timeSessions = [], projects = []\<rparr>"

definition merged_db :: db where
  "merged_db = \<lparr>activeSessions = [''u1'' \<mapsto> merged_row], timeSessions = [], projects = []\<rparr>"

text \<open>A request to record ten seconds of work as 999 seconds.\<close>

definition skewed_body :: create_body where
  "skewed_body =
     \<lparr>cb_projectId = Undefined,
      cb_description = None,
      cb_startTime = 0,
      cb_endTime = 10000,
      cb_durationSeconds = 999,
      cb_mode = Stopwatch\<rparr>"

definition sample_session :: time_session where
  "sample_session =
     \<lparr>ts_id = ''t1'',
      ts_description = None,
      ts_startTime = 0,
      ts_endTime = 10000,
      ts_durationSeconds = 10,
      ts_mode = Stopwatch,
      ts_projectId = None,
      ts_userId = ''u1''\<rparr>"

definition history_db :: db where
  "history_db = \<lparr>activeSessions = Map.empty, timeSessions = [sample_session], projects = []\<rparr>"

definition end_body :: update_body where
  "end_body =
     \<lparr>ub_description = None,
      ub_projectId = Undefined,
      ub_startTime = None,
      ub_endTime = Some ''1970-01-01T00:00:25.500Z''\<rparr>"

text \<open>A request that moves the start of a session behind its end.\<close>

definition late_start_body :: update_body where
  "late_start_body =
     \<lparr>ub_description = None,
      ub_projectId = Undefined,
      ub_startTime = Some ''1970-01-01T00:00:25.500Z'',
      ub_endTime = None\<rparr>"

definition sample_parseDate :: "string \<Rightarrow> time_ms option" where
  "sample_parseDate s = (if s = ''1970-01-01T00:00:25.500Z'' then Some 25500 else None)"

definition sample_stream :: stream where
  "sample_stream =
     \<lparr>st_userId = ''u1'',
      cachedState = Some (Some (sample_slot, None)),
      lastQueryTime = 5000,
      isClosed = False,
      sent = [],
      queries = 1\<rparr>"

definition idle_stream :: stream where
  "idle_stream =
     \<lparr>st_userId = ''u1'',
      cachedState = Some None,
      lastQueryTime = 5000,
      isClosed = False,
      sent = [InactivePayload 0],
      queries = 1\<rparr>"

section \<open>Auxiliary facts\<close>

lemma dropWhile_rev_twice:
  "dropWhile P (rev (dropWhile P (rev (dropWhile P s)))) =
   rev (dropWhile P (rev (dropWhile P s)))"
  by (metis (no_types, lifting) Nil_is_rev_conv dropWhile_eq_Nil_conv
      dropWhile_eq_self_iff dropWhile_last hd_dropWhile last_rev rev_swap)

lemma trim_trim: "trim (trim s) = trim s"
proof -
  have "trim (trim s) =
        rev (dropWhile is_space (rev (rev (dropWhile is_space (rev (dropWhile is_space s))))))"
    unfolding trim_def by (simp only: dropWhile_rev_twice)
  also have "\<dots> = rev (dropWhile is_space (dropWhile is_space (rev (dropWhile is_space s))))"
    by simp
  also have "\<dots> = trim s"
    by (simp add: trim_def)
  finally show ?thesis .
qed

lemma include_project_frame:
  "include_project (d\<lparr>timeSessions := ts\<rparr>) r = include_project d r"
  "include_project (d\<lparr>activeSessions := m\<rparr>) r = include_project d r"
  by (simp_all add: include_project_def cong: option.case_cong)

lemma stop_sessionData_normal:
  assumes "slot_normal a"
  shows "create_field (sd_description (stop_sessionData a endTime n uid)) = as_description a"
    and "create_field (sd_projectId (stop_sessionData a endTime n uid)) = as_projectId a"
  using assms
  by (auto simp: slot_normal_def stop_sessionData_def split: option.splits)

text \<open>The positive branch of the stop handler, as one equation.\<close>

lemma stopActive_promote:
  assumes "activeSessions d uid = Some a"
    and "slot_normal a"
    and "0 < elapsed_seconds now (as_startTime a)"
    and "\<not> F FindActive"
  shows "stopActive F now newId uid d =
           (if create_throws F d newId \<or> F DeleteActive then (Inl InternalError, d, [])
            else (Inr (promoted_session a now newId uid, include_project d (as_projectId a)),
                  d\<lparr>timeSessions := timeSessions d @ [promoted_session a now newId uid],
                    activeSessions := (activeSessions d)(uid := None)\<rparr>,
                  [uid]))"
  using assms stop_sessionData_normal [OF assms(2)]
  by (simp add: stopActive_def activeSession_findUnique_def transaction_def
      timeSession_create_def activeSession_delete_def promoted_session_def Let_def
      include_project_frame stop_sessionData_def)

lemma sample_slot_normal: "slot_normal sample_slot"
  by (simp add: slot_normal_def sample_slot_def trim_def is_space_def ascii_def)

lemma upsertActive_success:
  assumes "upsertActive F newId uid b d = (Inr r, d', ns)"
  shows "activeSessionSchema b"
    and "ns = [uid]"
    and "activeSession_upsert F d newId uid (activeSessionData b uid) = Inr (fst r, d')"
  using assms
  by (auto simp: upsertActive_def split: if_splits option.splits sum.splits prod.splits)

lemma activeSession_upsert_success:
  assumes "activeSession_upsert F d newId uid ad = Inr (row, d')"
  shows "d' = d\<lparr>activeSessions := (activeSessions d)(uid \<mapsto> row)\<rparr>"
    and "as_startTime row = ad_startTime ad"
    and "as_mode row = ad_mode ad"
    and "as_userId row = ad_userId ad"
    and "as_pomodoroCycle row = ad_pomodoroCycle ad"
    and "as_id row = (case activeSessions d uid of None \<Rightarrow> newId | Some old \<Rightarrow> as_id old)"
    and "as_description row =
           (case activeSessions d uid of
              None \<Rightarrow> create_field (ad_description ad)
            | Some old \<Rightarrow> update_field (ad_description ad) (as_description old))"
    and "as_targetSeconds row =
           (case activeSessions d uid of
              None \<Rightarrow> create_field (ad_targetSeconds ad)
            | Some old \<Rightarrow> update_field (ad_targetSeconds ad) (as_targetSeconds old))"
    and "as_pomodoroPhase row =
           (case activeSessions d uid of
              None \<Rightarrow> create_field (ad_pomodoroPhase ad)
            | Some old \<Rightarrow> update_field (ad_pomodoroPhase ad) (as_pomodoroPhase old))"
    and "as_projectId row =
           (case activeSessions d uid of
              None \<Rightarrow> create_field (ad_projectId ad)
            | Some old \<Rightarrow> update_field (ad_projectId ad) (as_projectId old))"
  using assms
  by (auto simp: activeSession_upsert_def Let_def split: if_splits option.splits)

lemma first_upsert:
  "upsertActive no_faults ''a1'' ''u1'' first_body empty_db = (Inr (first_row, None), first_db, [''u1''])"
  by (simp add: upsertActive_def activeSessionSchema_def check_project_def
      activeSession_upsert_def activeSessionData_def first_body_def first_row_def first_db_def
      empty_db_def no_faults_def trim_def is_space_def ascii_def Let_def include_project_def)

lemma second_upsert:
  "upsertActive no_faults ''a2'' ''u1'' second_body first_db = (Inr (merged_row, None), merged_db, [''u1''])"
  by (simp add: upsertActive_def activeSessionSchema_def check_project_def
      activeSession_upsert_def activeSessionData_def second_body_def first_row_def first_db_def
      merged_row_def merged_db_def
      no_faults_def Let_def include_project_def)

lemma padded_upsert:
  "upsertActive no_faults ''a3'' ''u1'' padded_body first_db =
     (Inr (first_row\<lparr>as_startTime := 7000, as_mode := Timer,
                      as_description := Some (ascii ''read''), as_targetSeconds := None,
                      as_pomodoroPhase := Some ShortBreak, as_pomodoroCycle := 3\<rparr>, None),
      first_db\<lparr>activeSessions :=
                 [''u1'' \<mapsto> first_row\<lparr>as_startTime := 7000, as_mode := Timer,
                      as_description := Some (ascii ''read''), as_targetSeconds := None,
                      as_pomodoroPhase := Some ShortBreak, as_pomodoroCycle := 3\<rparr>]\<rparr>,
      [''u1''])"
  by (simp add: upsertActive_def activeSessionSchema_def check_project_def
      activeSession_upsert_def activeSessionData_def padded_body_def first_row_def first_db_def
      no_faults_def trim_def is_space_def ascii_def Let_def include_project_def)

lemma second_upsert_alone:
  "upsertActive no_faults ''a2'' ''u1'' second_body empty_db =
     (Inr (\<lparr>as_id = ''a2'', as_startTime = 5000, as_mode = Stopwatch, as_description = None,
             as_targetSeconds = None, as_pomodoroPhase = None, as_pomodoroCycle = 0,
             as_projectId = None, as_userId = ''u1''\<rparr>, None),
      \<lparr>activeSessions =
         [''u1'' \<mapsto> \<lparr>as_id = ''a2'', as_startTime = 5000, as_mode = Stopwatch,
                      as_description = None, as_targetSeconds = None, as_pomodoroPhase = None,
                      as_pomodoroCycle = 0, as_projectId = None, as_userId = ''u1''\<rparr>],
       timeSessions = [], projects = []\<rparr>,
      [''u1''])"
  by (simp add: upsertActive_def activeSessionSchema_def check_project_def
      activeSession_upsert_def activeSessionData_def second_body_def empty_db_def
      no_faults_def Let_def include_project_def)

text \<open>
  A blank description in the request is turned into \<open>undefined\<close>; on a slot that exists
  the stored description then stays.
\<close>

lemma upsert_blank_description:
  assumes "activeSessions d uid = Some old"
    and "activeSession_upsert F d newId uid (activeSessionData b uid) = Inr (row, d')"
    and "ab_description b = Some s" and "trim s = []"
  shows "as_description row = as_description old"
  using activeSession_upsert_success(7) [OF assms(2)] assms(1,3,4)
  by (simp add: activeSessionData_def)

text \<open>The start handler stores slots in the normal form, and keeps them in it.\<close>

lemma upsert_slot_normal:
  assumes "activeSession_upsert F d newId uid (activeSessionData b uid) = Inr (row, d')"
    and "activeSessionSchema b"
    and "\<forall>old. activeSessions d uid = Some old \<longrightarrow> slot_normal old"
  shows "slot_normal row"
proof -
  note s = activeSession_upsert_success [OF assms(1)]
  have descr: "case as_description row of None \<Rightarrow> True | Some s \<Rightarrow> s \<noteq> [] \<and> trim s = s"
    using s(7) assms(3)
    by (auto simp: activeSessionData_def slot_normal_def trim_trim
        split: option.splits if_splits)
  have proj: "as_projectId row \<noteq> Some []"
    using s(10) assms(2,3)
    by (auto simp: activeSessionData_def slot_normal_def activeSessionSchema_def
        split: option.splits field.splits if_splits)
  from descr proj show ?thesis
    by (simp add: slot_normal_def)
qed

text \<open>With the primary key unique, the lookup by key and owner finds the row of the key.\<close>

lemma find_by_key:
  assumes "distinct (map ts_id xs)"
    and "find (\<lambda>r. ts_id r = sid \<and> ts_userId r = uid) xs = Some e"
  shows "find (\<lambda>r. ts_id r = sid) xs = Some e"
  using assms
proof (induction xs)
  case Nil
  then show ?case by simp
next
  case (Cons x xs)
  show ?case
  proof (cases "ts_id x = sid")
    case True
    show ?thesis
    proof (cases "ts_userId x = uid")
      case True
      with \<open>ts_id x = sid\<close> Cons.prems(2) show ?thesis by simp
    next
      case False
      with Cons.prems(2) have "find (\<lambda>r. ts_id r = sid \<and> ts_userId r = uid) xs = Some e"
        by simp
      then have "e \<in> set xs" and "ts_id e = sid"
        by (auto simp: find_Some_iff)
      then have "sid \<in> ts_id ` set xs"
        by blast
      moreover from Cons.prems(1) True have "sid \<notin> ts_id ` set xs"
        by simp
      ultimately show ?thesis by contradiction
    qed
  next
    case False
    with Cons show ?thesis by simp
  qed
qed

lemma stopActive_success:
  assumes "stopActive F now newId uid d = (Inr (row, proj), d', ns)"
  shows "ts_durationSeconds row = (ts_endTime row - ts_startTime row) div 1000"
    and "0 < ts_durationSeconds row"
    and "timeSessions d' = timeSessions d @ [row]"
  using assms
  by (auto simp: stopActive_def activeSession_findUnique_def transaction_def
      timeSession_create_def activeSession_delete_def Let_def stop_sessionData_def
      elapsed_seconds_def
      split: if_splits option.splits sum.splits prod.splits)

lemma updateData_duration:
  assumes "updateData parseDate b existing = Inr ud"
    and "supplied (ub_startTime b) \<or> supplied (ub_endTime b)"
  shows "ts_durationSeconds (apply_update ud existing) =
           (ts_endTime (apply_update ud existing) - ts_startTime (apply_update ud existing)) div 1000"
    and "0 \<le> ts_durationSeconds (apply_update ud existing)"
  using assms
  by (auto simp: updateData_def new_time_def apply_update_def Let_def
      split: option.splits if_splits)

lemma sample_stop:
  "stopActive no_faults 11000 ''t1'' ''u1'' sample_db =
     (Inr (promoted_session sample_slot 11000 ''t1'' ''u1'', None),
      sample_db\<lparr>timeSessions := [promoted_session sample_slot 11000 ''t1'' ''u1''],
                activeSessions := Map.empty\<rparr>,
      [''u1''])"
  using stopActive_promote [of sample_db "''u1''" sample_slot 11000 no_faults "''t1''"]
    sample_slot_normal
  by (simp add: sample_db_def sample_slot_def no_faults_def elapsed_seconds_def
      create_throws_def include_project_def)

lemma sample_update:
  "updateSession no_faults sample_parseDate ''u1'' ''t1'' end_body history_db =
     (Inr (sample_session\<lparr>ts_endTime := 25500, ts_durationSeconds := 25\<rparr>, None),
      history_db\<lparr>timeSessions := [sample_session\<lparr>ts_endTime := 25500, ts_durationSeconds := 25\<rparr>]\<rparr>,
      [])"
  by (simp add: updateSession_def updateSessionSchema_def timeSession_findFirst_def
      check_project_def updateData_def new_time_def timeSession_update_def apply_update_def Let_def
      include_project_def end_body_def history_db_def sample_session_def
      sample_parseDate_def no_faults_def)

lemma sample_create:
  "createSession no_faults ''t9'' ''u1'' skewed_body empty_db =
     (Inr (\<lparr>ts_id = ''t9'', ts_description = None, ts_startTime = 0, ts_endTime = 10000,
             ts_durationSeconds = 999, ts_mode = Stopwatch, ts_projectId = None,
             ts_userId = ''u1''\<rparr>, None),
      empty_db\<lparr>timeSessions :=
                 [\<lparr>ts_id = ''t9'', ts_description = None, ts_startTime = 0, ts_endTime = 10000,
                   ts_durationSeconds = 999, ts_mode = Stopwatch, ts_projectId = None,
                   ts_userId = ''u1''\<rparr>]\<rparr>,
      [])"
  by (simp add: createSession_def createSessionSchema_def check_project_def
      timeSession_create_def create_throws_def create_sessionData_def Let_def
      include_project_def skewed_body_def empty_db_def no_faults_def)

text \<open>The stream: what a forced read does, and a run of change notifications.\<close>

lemma sendCurrentState_forced:
  "queries (sendCurrentState F d True now ct st) = Suc (queries st)"
  "isClosed (sendCurrentState F d True now ct st) = isClosed st"
  "st_userId (sendCurrentState F d True now ct st) = st_userId st"
  by (simp_all add: sendCurrentState_def sendEvent_def split: sum.splits)

lemma sendCurrentState_fetch:
  assumes "\<not> F FindActive"
  shows "sendCurrentState F d True now ct st =
           st\<lparr>queries := Suc (queries st),
              cachedState :=
                Some (map_option (\<lambda>a. (a, include_project d (as_projectId a)))
                        (activeSessions d (st_userId st))),
              lastQueryTime := now,
              sent := sent st @
                [state_event (map_option (\<lambda>a. (a, include_project d (as_projectId a)))
                                (activeSessions d (st_userId st))) ct]\<rparr>"
  using assms
  by (simp add: sendCurrentState_def sendEvent_def activeSession_findUnique_include_def
      activeSession_findUnique_def split: option.splits)

lemma onChangeHandler_own:
  assumes "\<not> isClosed st"
  shows "queries (onChangeHandler F d (st_userId st) now ct st) = Suc (queries st)"
    and "\<not> isClosed (onChangeHandler F d (st_userId st) now ct st)"
    and "st_userId (onChangeHandler F d (st_userId st) now ct st) = st_userId st"
  using assms by (simp_all add: onChangeHandler_def sendCurrentState_forced)

lemma onChanges_queries:
  assumes "\<not> isClosed st"
  shows "queries (onChanges F (st_userId st) es st) = queries st + length es"
  using assms
proof (induction es arbitrary: st)
  case Nil
  then show ?case by simp
next
  case (Cons e es)
  obtain d now ct where e: "e = (d, now, ct)"
    by (cases e) auto
  let ?st = "onChangeHandler F d (st_userId st) now ct st"
  from onChangeHandler_own [OF Cons.prems, of F d now ct]
  have q: "queries ?st = Suc (queries st)" and c: "\<not> isClosed ?st"
    and u: "st_userId ?st = st_userId st"
    by simp_all
  from Cons.IH [OF c] u have "queries (onChanges F (st_userId st) es ?st) = queries ?st + length es"
    by simp
  with q e show ?case by simp
qed

text \<open>No-break spaces are trimmed, and a text of them alone is blank.\<close>

lemma trim_nbsp:
  "trim (0x00A0 # ascii ''write'' @ [0x00A0]) = ascii ''write''"
  "trim [0x00A0] = []"
  by (simp_all add: trim_def is_space_def ascii_def)

text \<open>The handlers of the historical sessions, run on the inputs they accept.\<close>

lemma stopActive_commit:
  assumes "activeSessions d uid = Some a"
    and "0 < elapsed_seconds now (as_startTime a)"
    and "\<not> F FindActive" and "\<not> create_throws F d newId" and "\<not> F DeleteActive"
  shows "\<exists>row. stopActive F now newId uid d =
                 (Inr (row, include_project d (ts_projectId row)),
                  d\<lparr>timeSessions := timeSessions d @ [row],
                    activeSessions := (activeSessions d)(uid := None)\<rparr>,
                  [uid]) \<and>
               ts_startTime row = as_startTime a \<and> ts_endTime row = now \<and>
               ts_durationSeconds row = (now - as_startTime a) div 1000"
  using assms
  by (simp add: stopActive_def activeSession_findUnique_def transaction_def
      timeSession_create_def activeSession_delete_def Let_def include_project_frame
      stop_sessionData_def elapsed_seconds_def)

lemma same_key_same_row:
  assumes "distinct (map ts_id xs)" and "e \<in> set xs" and "x \<in> set xs" and "ts_id x = ts_id e"
  shows "x = e"
  using assms by (auto simp: distinct_map dest: inj_onD)

lemma updateSession_run:
  assumes "updateSessionSchema ub"
    and "\<not> F FindTimeSession" and "\<not> F UpdateTimeSession"
    and "distinct (map ts_id (timeSessions d))"
    and "find (\<lambda>r. ts_id r = sid \<and> ts_userId r = uid) (timeSessions d) = Some e"
    and "check_project F d (ub_projectId ub) uid = None"
  shows "updateSession F parseDate uid sid ub d =
           (case updateData parseDate ub e of
              Inl err \<Rightarrow> (Inl err, d, [])
            | Inr ud \<Rightarrow>
                (Inr (apply_update ud e, include_project d (ts_projectId (apply_update ud e))),
                 d\<lparr>timeSessions :=
                     map (\<lambda>x. if ts_id x = sid then apply_update ud e else x) (timeSessions d)\<rparr>,
                 []))"
proof -
  from assms(5) have mem: "e \<in> set (timeSessions d)" and key: "ts_id e = sid"
    by (auto simp: find_Some_iff)
  have by_key: "find (\<lambda>r. ts_id r = sid) (timeSessions d) = Some e"
    by (rule find_by_key [OF assms(4,5)])
  have same: "\<And>ud. map (\<lambda>x. if ts_id x = sid then apply_update ud x else x) (timeSessions d) =
                 map (\<lambda>x. if ts_id x = sid then apply_update ud e else x) (timeSessions d)"
  proof (rule map_cong [OF refl])
    fix ud x
    assume "x \<in> set (timeSessions d)"
    with same_key_same_row [OF assms(4) mem, of x] key
    show "(if ts_id x = sid then apply_update ud x else x) =
          (if ts_id x = sid then apply_update ud e else x)"
      by auto
  qed
  show ?thesis
    using assms(1-3,5,6) by_key
    by (simp add: updateSession_def timeSession_findFirst_def timeSession_update_def same
        include_project_frame split: sum.splits)
qed

lemma updateData_times:
  assumes "supplied (ub_startTime ub) \<or> supplied (ub_endTime ub)"
    and "new_time parseDate (ub_startTime ub) (ts_startTime e) = Some newStart"
    and "new_time parseDate (ub_endTime ub) (ts_endTime e) = Some newEnd"
  shows "(newEnd - newStart) div 1000 < 0 \<Longrightarrow> updateData parseDate ub e = Inl EndBeforeStart"
    and "0 \<le> (newEnd - newStart) div 1000 \<Longrightarrow>
           \<exists>ud. updateData parseDate ub e = Inr ud \<and>
                ts_id (apply_update ud e) = ts_id e \<and>
                ts_startTime (apply_update ud e) = newStart \<and>
                ts_endTime (apply_update ud e) = newEnd \<and>
                ts_durationSeconds (apply_update ud e) = (newEnd - newStart) div 1000"
  using assms
  by (auto simp: updateData_def new_time_def apply_update_def Let_def
      split: option.splits if_splits)

lemma createSession_run:
  assumes "0 \<le> cb_durationSeconds cb" and "\<forall>p. cb_projectId cb = Value p \<longrightarrow> p \<noteq> []"
    and "check_project F d (cb_projectId cb) uid = None"
    and "\<not> create_throws F d newId"
  shows "createSession F newId uid cb d =
           (Inr (\<lparr>ts_id = newId,
                  ts_description = cb_description cb,
                  ts_startTime = cb_startTime cb,
                  ts_endTime = cb_endTime cb,
                  ts_durationSeconds = cb_durationSeconds cb,
                  ts_mode = cb_mode cb,
                  ts_projectId = (case cb_projectId cb of Value p \<Rightarrow> Some p | _ \<Rightarrow> None),
                  ts_userId = uid\<rparr>,
                 include_project d (case cb_projectId cb of Value p \<Rightarrow> Some p | _ \<Rightarrow> None)),
            d\<lparr>timeSessions := timeSessions d @
                 [\<lparr>ts_id = newId,
                   ts_description = cb_description cb,
                   ts_startTime = cb_startTime cb,
                   ts_endTime = cb_endTime cb,
                   ts_durationSeconds = cb_durationSeconds cb,
                   ts_mode = cb_mode cb,
                   ts_projectId = (case cb_projectId cb of Value p \<Rightarrow> Some p | _ \<Rightarrow> None),
                   ts_userId = uid\<rparr>]\<rparr>,
            [])"
proof -
  have schema: "createSessionSchema cb"
    using assms(1,2)
    by (auto simp: createSessionSchema_def Suc_le_eq split: field.splits)
  have descr: "create_field (sd_description (create_sessionData cb uid)) = cb_description cb"
    by (simp add: create_sessionData_def split: option.splits)
  have proj: "create_field (sd_projectId (create_sessionData cb uid)) =
                (case cb_projectId cb of Value p \<Rightarrow> Some p | _ \<Rightarrow> None)"
    using assms(2) by (cases "cb_projectId cb") (simp_all add: create_sessionData_def)
  have rest: "sd_startTime (create_sessionData cb uid) = cb_startTime cb"
    "sd_endTime (create_sessionData cb uid) = cb_endTime cb"
    "sd_durationSeconds (create_sessionData cb uid) = cb_durationSeconds cb"
    "sd_mode (create_sessionData cb uid) = cb_mode cb"
    "sd_userId (create_sessionData cb uid) = uid"
    by (simp_all add: create_sessionData_def)
  show ?thesis
    using schema assms(3,4)
    by (simp add: createSession_def timeSession_create_def Let_def descr proj rest
        include_project_frame)
qed

lemma updateSession_success_pre:
  assumes "updateSession F parseDate uid sid ub d = (Inr (row, proj), d', ns)"
  shows "updateSessionSchema ub" and "\<not> F FindTimeSession" and "\<not> F UpdateTimeSession"
    and "\<exists>e. find (\<lambda>r. ts_id r = sid \<and> ts_userId r = uid) (timeSessions d) = Some e"
    and "check_project F d (ub_projectId ub) uid = None"
  using assms
  by (auto simp: updateSession_def timeSession_findFirst_def timeSession_update_def
      split: if_splits option.splits sum.splits prod.splits)

lemma updateSession_success_store:
  assumes "updateSession F parseDate uid sid ub d = (Inr (row, proj), d', ns)"
    and "supplied (ub_startTime ub) \<or> supplied (ub_endTime ub)"
    and "distinct (map ts_id (timeSessions d))"
  shows "ts_durationSeconds row = (ts_endTime row - ts_startTime row) div 1000"
    and "0 \<le> ts_durationSeconds row"
    and "timeSessions d' = map (\<lambda>x. if ts_id x = sid then row else x) (timeSessions d)"
proof -
  note pre = updateSession_success_pre [OF assms(1)]
  from pre(4) obtain e where
    e: "find (\<lambda>r. ts_id r = sid \<and> ts_userId r = uid) (timeSessions d) = Some e"
    by blast
  note run = updateSession_run [OF pre(1-3) assms(3) e pre(5), of parseDate]
  from run assms(1) obtain ud where
    ud: "updateData parseDate ub e = Inr ud" and row: "row = apply_update ud e"
    and store: "d' = d\<lparr>timeSessions :=
                     map (\<lambda>x. if ts_id x = sid then apply_update ud e else x) (timeSessions d)\<rparr>"
    by (auto split: sum.splits)
  from updateData_duration [OF ud assms(2)] row
  show "ts_durationSeconds row = (ts_endTime row - ts_startTime row) div 1000"
    and "0 \<le> ts_durationSeconds row" by simp_all
  from store row
  show "timeSessions d' = map (\<lambda>x. if ts_id x = sid then row else x) (timeSessions d)"
    by simp
qed

section \<open>Properties of stopping\<close>

text \<open>
  C9. Stopping when the user has no active session answers \<open>NoActiveSession\<close> (status
  404) and has no side effect: the store is the one it was, so no historical session is
  created and no slot is changed, and no change notification is emitted.
\<close>

theorem stop_without_active_session:
  assumes "activeSessions d uid = None" and "\<not> F FindActive"
  shows "stopActive F now newId uid d = (Inl NoActiveSession, d, []) \<and>
         status NoActiveSession = 404"
  using assms by (simp add: stopActive_def activeSession_findUnique_def)

theorem stop_without_active_session_witness:
  "activeSessions empty_db ''u1'' = None \<and> \<not> no_faults FindActive \<and>
   stopActive no_faults 5000 ''t1'' ''u1'' empty_db = (Inl NoActiveSession, empty_db, [])"
  using stop_without_active_session [of empty_db "''u1''" no_faults 5000 "''t1''"]
  by (simp add: empty_db_def no_faults_def)

text \<open>
  C4. When the elapsed time of the user's active session is not positive at the stop,
  the handler (its store calls not failing) deletes the slot, so that the lookup is
  absent afterwards, answers \<open>InvalidDuration\<close> (status 400) and creates no historical
  session.
\<close>

theorem stop_invalid_duration:
  assumes "activeSessions d uid = Some a"
    and "elapsed_seconds now (as_startTime a) \<le> 0"
    and "\<not> F FindActive" and "\<not> F DeleteActive"
  shows "fst (stopActive F now newId uid d) = Inl InvalidDuration \<and>
         status InvalidDuration = 400 \<and>
         activeSessions (fst (snd (stopActive F now newId uid d))) uid = None \<and>
         timeSessions (fst (snd (stopActive F now newId uid d))) = timeSessions d"
  using assms
  by (simp add: stopActive_def activeSession_findUnique_def activeSession_delete_def)

theorem stop_invalid_duration_witness:
  "activeSessions sample_db ''u1'' = Some sample_slot \<and>
   elapsed_seconds 1999 (as_startTime sample_slot) \<le> 0 \<and>
   \<not> no_faults FindActive \<and> \<not> no_faults DeleteActive \<and>
   fst (stopActive no_faults 1999 ''t1'' ''u1'' sample_db) = Inl InvalidDuration \<and>
   activeSessions (fst (snd (stopActive no_faults 1999 ''t1'' ''u1'' sample_db))) ''u1'' = None \<and>
   timeSessions (fst (snd (stopActive no_faults 1999 ''t1'' ''u1'' sample_db))) = []"
  using stop_invalid_duration [of sample_db "''u1''" sample_slot 1999 no_faults "''t1''"]
  by (simp add: sample_db_def sample_slot_def no_faults_def elapsed_seconds_def)

text \<open>
  C1. Let the user have an active session with positive elapsed time (now minus start
  time, in whole seconds), and let the lookup succeed. If neither the create nor the
  delete of the transaction throws, then afterwards the lookup of the user's active
  session is absent and the historical sessions are the old ones followed by exactly one
  new row, whose duration is the elapsed seconds, whose start time and mode are those of
  the active session and whose end time is now; for a slot in the form the start handler
  stores, project and description are those of the active session as well. One
  notification is emitted. If the create throws, or the delete does, the store is
  unchanged, so the active session is still present and no historical session was added:
  neither half takes effect alone.
\<close>

theorem stop_promotes_atomically:
  assumes "activeSessions d uid = Some a"
    and "0 < elapsed_seconds now (as_startTime a)"
    and "\<not> F FindActive"
  shows "(\<not> create_throws F d newId \<and> \<not> F DeleteActive \<longrightarrow>
            (\<exists>row.
               fst (stopActive F now newId uid d) =
                 Inr (row, include_project d (ts_projectId row)) \<and>
               timeSessions (fst (snd (stopActive F now newId uid d))) =
                 timeSessions d @ [row] \<and>
               activeSessions (fst (snd (stopActive F now newId uid d))) uid = None \<and>
               snd (snd (stopActive F now newId uid d)) = [uid] \<and>
               ts_durationSeconds row = (now - as_startTime a) div 1000 \<and>
               ts_startTime row = as_startTime a \<and>
               ts_endTime row = now \<and>
               ts_mode row = as_mode a \<and>
               ts_userId row = uid \<and>
               (slot_normal a \<longrightarrow> row = promoted_session a now newId uid))) \<and>
         (create_throws F d newId \<or> F DeleteActive \<longrightarrow>
            stopActive F now newId uid d = (Inl InternalError, d, []) \<and>
            activeSessions (fst (snd (stopActive F now newId uid d))) uid = Some a)"
proof (intro conjI impI)
  assume ok: "\<not> create_throws F d newId \<and> \<not> F DeleteActive"
  let ?sd = "stop_sessionData a now (elapsed_seconds now (as_startTime a)) uid"
  let ?row = "\<lparr>ts_id = newId,
               ts_description = create_field (sd_description ?sd),
               ts_startTime = as_startTime a,
               ts_endTime = now,
               ts_durationSeconds = elapsed_seconds now (as_startTime a),
               ts_mode = as_mode a,
               ts_projectId = create_field (sd_projectId ?sd),
               ts_userId = uid\<rparr>"
  have run: "stopActive F now newId uid d =
               (Inr (?row, include_project d (ts_projectId ?row)),
                d\<lparr>timeSessions := timeSessions d @ [?row],
                  activeSessions := (activeSessions d)(uid := None)\<rparr>,
                [uid])"
    using assms ok
    by (simp add: stopActive_def activeSession_findUnique_def transaction_def
        timeSession_create_def activeSession_delete_def Let_def include_project_frame
        stop_sessionData_def)
  have copied: "slot_normal a \<longrightarrow> ?row = promoted_session a now newId uid"
    using stop_sessionData_normal [of a now "elapsed_seconds now (as_startTime a)" uid]
    by (simp add: promoted_session_def)
  show "\<exists>row.
               fst (stopActive F now newId uid d) =
                 Inr (row, include_project d (ts_projectId row)) \<and>
               timeSessions (fst (snd (stopActive F now newId uid d))) =
                 timeSessions d @ [row] \<and>
               activeSessions (fst (snd (stopActive F now newId uid d))) uid = None \<and>
               snd (snd (stopActive F now newId uid d)) = [uid] \<and>
               ts_durationSeconds row = (now - as_startTime a) div 1000 \<and>
               ts_startTime row = as_startTime a \<and>
               ts_endTime row = now \<and>
               ts_mode row = as_mode a \<and>
               ts_userId row = uid \<and>
               (slot_normal a \<longrightarrow> row = promoted_session a now newId uid)"
  proof (intro exI [of _ ?row] conjI)
    show "slot_normal a \<longrightarrow> ?row = promoted_session a now newId uid"
      by (rule copied)
  qed (simp_all add: run elapsed_seconds_def)
next
  assume bad: "create_throws F d newId \<or> F DeleteActive"
  have run: "stopActive F now newId uid d = (Inl InternalError, d, [])"
    using assms bad
    by (auto simp: stopActive_def activeSession_findUnique_def transaction_def
        timeSession_create_def activeSession_delete_def Let_def)
  then show "stopActive F now newId uid d = (Inl InternalError, d, [])"
    and "activeSessions (fst (snd (stopActive F now newId uid d))) uid = Some a"
    using assms(1) by simp_all
qed

theorem stop_promotes_atomically_witness:
  "activeSessions sample_db ''u1'' = Some sample_slot \<and>
   0 < elapsed_seconds 11000 (as_startTime sample_slot) \<and>
   \<not> no_faults FindActive \<and> \<not> create_fails FindActive \<and>
   \<not> create_throws no_faults sample_db ''t1'' \<and> \<not> no_faults DeleteActive \<and>
   slot_normal sample_slot \<and>
   create_throws create_fails sample_db ''t1'' \<and>
   activeSessions (fst (snd (stopActive no_faults 11000 ''t1'' ''u1'' sample_db))) ''u1'' = None \<and>
   timeSessions (fst (snd (stopActive no_faults 11000 ''t1'' ''u1'' sample_db))) =
     [promoted_session sample_slot 11000 ''t1'' ''u1''] \<and>
   ts_durationSeconds (promoted_session sample_slot 11000 ''t1'' ''u1'') = 10 \<and>
   ts_mode (promoted_session sample_slot 11000 ''t1'' ''u1'') = Pomodoro \<and>
   stopActive create_fails 11000 ''t1'' ''u1'' sample_db = (Inl InternalError, sample_db, [])"
  using stop_promotes_atomically
          [of sample_db "''u1''" sample_slot 11000 no_faults "''t1''"]
        stop_promotes_atomically
          [of sample_db "''u1''" sample_slot 11000 create_fails "''t1''"]
        sample_slot_normal
  by (auto simp: sample_db_def sample_slot_def no_faults_def create_fails_def
      elapsed_seconds_def create_throws_def promoted_session_def)

text \<open>
  C2, on the stop with elapsed time zero. The user's slot holds a session started at
  1000 and the stop comes at 1000: the handler answers \<open>InvalidDuration\<close>, the slot is
  deleted, and no notification is emitted for the user, where the start handler and the
  promotion each emit one.
\<close>

theorem invalid_duration_stop_emits_nothing:
  "activeSessions sample_db ''u1'' = Some sample_slot \<and>
   fst (stopActive no_faults 1000 ''t1'' ''u1'' sample_db) = Inl InvalidDuration \<and>
   activeSessions (fst (snd (stopActive no_faults 1000 ''t1'' ''u1'' sample_db))) ''u1'' = None \<and>
   snd (snd (stopActive no_faults 1000 ''t1'' ''u1'' sample_db)) = [] \<and>
   snd (snd (stopActive no_faults 11000 ''t1'' ''u1'' sample_db)) = [''u1'']"
  by (simp add: stopActive_def activeSession_findUnique_def activeSession_delete_def
      transaction_def timeSession_create_def create_throws_def Let_def
      sample_db_def sample_slot_def no_faults_def elapsed_seconds_def)

section \<open>Properties of starting and replacing\<close>

text \<open>
  C3, as the code has it. Two successful start requests in a row for one user leave
  exactly one slot for the user, the slots of the other users as they were, and the
  identity of the slot unchanged. Start time, mode, pomodoro cycle (0 when left out) and
  project reference (none when left out or null) are those of the second request. Target
  seconds and pomodoro phase are those of the second request when it gives them (a value
  or null) and those the slot had after the first request when it leaves them out. The
  description is the one the slot had when the second request leaves it out, and the
  trimmed description of the second request when that is not blank.
\<close>

theorem upsert_twice:
  assumes "upsertActive F1 id1 uid b1 d = (Inr r1, d1, n1)"
    and "upsertActive F2 id2 uid b2 d1 = (Inr r2, d2, n2)"
  shows "activeSessions d2 uid = Some (fst r2) \<and>
         (\<forall>v. v \<noteq> uid \<longrightarrow> activeSessions d2 v = activeSessions d v) \<and>
         as_id (fst r2) = as_id (fst r1) \<and>
         as_userId (fst r2) = uid \<and>
         as_startTime (fst r2) = ab_startTime b2 \<and>
         as_mode (fst r2) = ab_mode b2 \<and>
         as_pomodoroCycle (fst r2) = (case ab_pomodoroCycle b2 of None \<Rightarrow> 0 | Some c \<Rightarrow> c) \<and>
         as_projectId (fst r2) = (case ab_projectId b2 of Value p \<Rightarrow> Some p | _ \<Rightarrow> None) \<and>
         as_targetSeconds (fst r2) =
           (case ab_targetSeconds b2 of
              Undefined \<Rightarrow> as_targetSeconds (fst r1) | Null \<Rightarrow> None | Value n \<Rightarrow> Some n) \<and>
         as_pomodoroPhase (fst r2) =
           (case ab_pomodoroPhase b2 of
              Undefined \<Rightarrow> as_pomodoroPhase (fst r1) | Null \<Rightarrow> None | Value ph \<Rightarrow> Some ph) \<and>
         (ab_description b2 = None \<longrightarrow> as_description (fst r2) = as_description (fst r1)) \<and>
         (\<forall>s. ab_description b2 = Some s \<and> trim s \<noteq> [] \<longrightarrow>
              as_description (fst r2) = Some (trim s))"
proof -
  note u1 = upsertActive_success [OF assms(1)]
  note u2 = upsertActive_success [OF assms(2)]
  note s1 = activeSession_upsert_success [OF u1(3)]
  note s2 = activeSession_upsert_success [OF u2(3)]
  have slot1: "activeSessions d1 uid = Some (fst r1)"
    by (simp add: s1(1))
  have slot2: "activeSessions d2 uid = Some (fst r2)"
    by (simp add: s2(1))
  have others: "\<forall>v. v \<noteq> uid \<longrightarrow> activeSessions d2 v = activeSessions d v"
    by (simp add: s1(1) s2(1))
  have ident: "as_id (fst r2) = as_id (fst r1)"
    using s2(6) slot1 by simp
  have plain: "as_userId (fst r2) = uid" "as_startTime (fst r2) = ab_startTime b2"
    "as_mode (fst r2) = ab_mode b2"
    "as_pomodoroCycle (fst r2) = (case ab_pomodoroCycle b2 of None \<Rightarrow> 0 | Some c \<Rightarrow> c)"
    using s2(2-5) by (simp_all add: activeSessionData_def)
  have proj: "as_projectId (fst r2) = (case ab_projectId b2 of Value p \<Rightarrow> Some p | _ \<Rightarrow> None)"
    using s2(10) slot1 u2(1)
    by (auto simp: activeSessionData_def activeSessionSchema_def split: field.splits)
  have target: "as_targetSeconds (fst r2) =
           (case ab_targetSeconds b2 of
              Undefined \<Rightarrow> as_targetSeconds (fst r1) | Null \<Rightarrow> None | Value n \<Rightarrow> Some n)"
    using s2(8) slot1 by (simp add: activeSessionData_def split: field.splits)
  have phase: "as_pomodoroPhase (fst r2) =
           (case ab_pomodoroPhase b2 of
              Undefined \<Rightarrow> as_pomodoroPhase (fst r1) | Null \<Rightarrow> None | Value ph \<Rightarrow> Some ph)"
    using s2(9) slot1 by (simp add: activeSessionData_def split: field.splits)
  have descr_kept: "ab_description b2 = None \<longrightarrow> as_description (fst r2) = as_description (fst r1)"
    using s2(7) slot1 by (simp add: activeSessionData_def)
  have descr_new: "\<forall>s. ab_description b2 = Some s \<and> trim s \<noteq> [] \<longrightarrow>
              as_description (fst r2) = Some (trim s)"
    using s2(7) slot1 by (auto simp: activeSessionData_def trim_def)
  from slot2 others ident plain proj target phase descr_kept descr_new show ?thesis
    by blast
qed

theorem upsert_twice_witness:
  "upsertActive no_faults ''a1'' ''u1'' first_body empty_db = (Inr (first_row, None), first_db, [''u1'']) \<and>
   upsertActive no_faults ''a2'' ''u1'' second_body first_db = (Inr (merged_row, None), merged_db, [''u1'']) \<and>
   activeSessions merged_db ''u1'' = Some merged_row \<and>
   as_startTime merged_row = ab_startTime second_body \<and>
   as_mode merged_row = ab_mode second_body \<and>
   as_pomodoroCycle merged_row = 0 \<and>
   as_targetSeconds merged_row = as_targetSeconds first_row \<and>
   as_description merged_row = as_description first_row \<and>
   ab_description second_body = None \<and>
   ab_description padded_body = Some (0x00A0 # ascii ''read'' @ [0x00A0]) \<and>
   trim (0x00A0 # ascii ''read'' @ [0x00A0]) = ascii ''read'' \<and>
   ascii ''read'' \<noteq> [] \<and>
   map_option as_description
     (activeSessions (fst (snd (upsertActive no_faults ''a3'' ''u1'' padded_body first_db))) ''u1'') =
     Some (Some (ascii ''read'')) \<and>
   map_option as_targetSeconds
     (activeSessions (fst (snd (upsertActive no_faults ''a3'' ''u1'' padded_body first_db))) ''u1'') =
     Some None"
  using upsert_twice [OF first_upsert second_upsert]
        upsert_twice [OF first_upsert padded_upsert]
        first_upsert second_upsert
  unfolding padded_upsert
  by (simp add: second_body_def padded_body_def trim_def is_space_def ascii_def)

text \<open>
  C3 as stated fails: after a first request with description, target seconds and
  pomodoro phase and a second request that leaves the three out, the slot still holds
  the three values of the first request, where the second request alone stores none.
\<close>

theorem upsert_twice_merges:
  "map_option as_description
     (activeSessions
        (fst (snd (upsertActive no_faults ''a2'' ''u1'' second_body
           (fst (snd (upsertActive no_faults ''a1'' ''u1'' first_body empty_db)))))) ''u1'')
     = Some (Some (ascii ''write'')) \<and>
   map_option as_targetSeconds
     (activeSessions
        (fst (snd (upsertActive no_faults ''a2'' ''u1'' second_body
           (fst (snd (upsertActive no_faults ''a1'' ''u1'' first_body empty_db)))))) ''u1'')
     = Some (Some 1500) \<and>
   map_option as_pomodoroPhase
     (activeSessions
        (fst (snd (upsertActive no_faults ''a2'' ''u1'' second_body
           (fst (snd (upsertActive no_faults ''a1'' ''u1'' first_body empty_db)))))) ''u1'')
     = Some (Some Work) \<and>
   ab_description second_body = None \<and>
   ab_targetSeconds second_body = Undefined \<and>
   ab_pomodoroPhase second_body = Undefined \<and>
   map_option as_description
     (activeSessions (fst (snd (upsertActive no_faults ''a2'' ''u1'' second_body empty_db))) ''u1'')
     = Some None"
  unfolding first_upsert second_upsert second_upsert_alone fst_conv snd_conv
  by (simp add: merged_db_def merged_row_def second_body_def)

section \<open>Properties of the historical sessions\<close>

text \<open>
  C5, as the code has it. A stop with positive elapsed time whose store calls do not
  throw appends one historical session whose start time is that of the active session,
  whose end time is now and whose duration is the whole seconds from the start to the
  end, computed by the handler; every row a stop returns is of this kind and is the row
  appended. An update of a session of the user that supplies a start or an end time (the
  schema and the project check passed, the times valid, the primary key unique, no store
  call throwing) writes, when the whole seconds from the new start to the new end are
  not negative, the row with the new times and with these seconds as its duration in the
  place of the old row, and answers with it; when they are negative it answers
  \<open>EndBeforeStart\<close> and writes nothing; every row such an update returns is the one
  written, with the recomputed duration. The create handler accepts every request whose
  \<open>durationSeconds\<close> is not negative (the project reference passing its check and the
  insert not throwing), whatever its start and end times, and appends a row that holds
  the \<open>durationSeconds\<close>, the start time and the end time of the request as supplied.
\<close>

theorem session_durations:
  "(activeSessions d uid = Some a \<and> 0 < elapsed_seconds now (as_startTime a) \<and>
    \<not> F FindActive \<and> \<not> create_throws F d newId \<and> \<not> F DeleteActive \<longrightarrow>
      (\<exists>srow. fst (stopActive F now newId uid d) =
                 Inr (srow, include_project d (ts_projectId srow)) \<and>
              timeSessions (fst (snd (stopActive F now newId uid d))) =
                 timeSessions d @ [srow] \<and>
              ts_startTime srow = as_startTime a \<and>
              ts_endTime srow = now \<and>
              ts_durationSeconds srow = (ts_endTime srow - ts_startTime srow) div 1000)) \<and>
   (stopActive F now newId uid d = (Inr (row, proj), d', ns) \<longrightarrow>
      ts_durationSeconds row = (ts_endTime row - ts_startTime row) div 1000 \<and>
      0 < ts_durationSeconds row \<and>
      timeSessions d' = timeSessions d @ [row]) \<and>
   (updateSessionSchema ub \<and> \<not> F FindTimeSession \<and> \<not> F UpdateTimeSession \<and>
    distinct (map ts_id (timeSessions d)) \<and>
    find (\<lambda>r. ts_id r = sid \<and> ts_userId r = uid) (timeSessions d) = Some e \<and>
    check_project F d (ub_projectId ub) uid = None \<and>
    (supplied (ub_startTime ub) \<or> supplied (ub_endTime ub)) \<and>
    new_time parseDate (ub_startTime ub) (ts_startTime e) = Some newStart \<and>
    new_time parseDate (ub_endTime ub) (ts_endTime e) = Some newEnd \<longrightarrow>
      (0 \<le> (newEnd - newStart) div 1000 \<longrightarrow>
         (\<exists>urow. updateSession F parseDate uid sid ub d =
                   (Inr (urow, include_project d (ts_projectId urow)),
                    d\<lparr>timeSessions :=
                        map (\<lambda>x. if ts_id x = sid then urow else x) (timeSessions d)\<rparr>,
                    []) \<and>
                 ts_id urow = sid \<and>
                 ts_startTime urow = newStart \<and>
                 ts_endTime urow = newEnd \<and>
                 ts_durationSeconds urow = (newEnd - newStart) div 1000)) \<and>
      ((newEnd - newStart) div 1000 < 0 \<longrightarrow>
         updateSession F parseDate uid sid ub d = (Inl EndBeforeStart, d, []))) \<and>
   (updateSession F parseDate uid sid ub d = (Inr (row, proj), d', ns) \<and>
    (supplied (ub_startTime ub) \<or> supplied (ub_endTime ub)) \<and>
    distinct (map ts_id (timeSessions d)) \<longrightarrow>
      ts_durationSeconds row = (ts_endTime row - ts_startTime row) div 1000 \<and>
      0 \<le> ts_durationSeconds row \<and>
      timeSessions d' = map (\<lambda>x. if ts_id x = sid then row else x) (timeSessions d)) \<and>
   (0 \<le> cb_durationSeconds cb \<and> (\<forall>p. cb_projectId cb = Value p \<longrightarrow> p \<noteq> []) \<and>
    check_project F d (cb_projectId cb) uid = None \<and> \<not> create_throws F d newId \<longrightarrow>
      createSession F newId uid cb d =
        (Inr (\<lparr>ts_id = newId,
               ts_description = cb_description cb,
               ts_startTime = cb_startTime cb,
               ts_endTime = cb_endTime cb,
               ts_durationSeconds = cb_durationSeconds cb,
               ts_mode = cb_mode cb,
               ts_projectId = (case cb_projectId cb of Value p \<Rightarrow> Some p | _ \<Rightarrow> None),
               ts_userId = uid\<rparr>,
              include_project d (case cb_projectId cb of Value p \<Rightarrow> Some p | _ \<Rightarrow> None)),
         d\<lparr>timeSessions := timeSessions d @
              [\<lparr>ts_id = newId,
                ts_description = cb_description cb,
                ts_startTime = cb_startTime cb,
                ts_endTime = cb_endTime cb,
                ts_durationSeconds = cb_durationSeconds cb,
                ts_mode = cb_mode cb,
                ts_projectId = (case cb_projectId cb of Value p \<Rightarrow> Some p | _ \<Rightarrow> None),
                ts_userId = uid\<rparr>]\<rparr>,
         []))"
proof -
  have stop_runs:
    "activeSessions d uid = Some a \<and> 0 < elapsed_seconds now (as_startTime a) \<and>
     \<not> F FindActive \<and> \<not> create_throws F d newId \<and> \<not> F DeleteActive \<longrightarrow>
      (\<exists>srow. fst (stopActive F now newId uid d) =
                 Inr (srow, include_project d (ts_projectId srow)) \<and>
              timeSessions (fst (snd (stopActive F now newId uid d))) =
                 timeSessions d @ [srow] \<and>
              ts_startTime srow = as_startTime a \<and>
              ts_endTime srow = now \<and>
              ts_durationSeconds srow = (ts_endTime srow - ts_startTime srow) div 1000)"
  proof
    assume h: "activeSessions d uid = Some a \<and> 0 < elapsed_seconds now (as_startTime a) \<and>
     \<not> F FindActive \<and> \<not> create_throws F d newId \<and> \<not> F DeleteActive"
    then obtain srow where
      "stopActive F now newId uid d =
                 (Inr (srow, include_project d (ts_projectId srow)),
                  d\<lparr>timeSessions := timeSessions d @ [srow],
                    activeSessions := (activeSessions d)(uid := None)\<rparr>,
                  [uid])"
      and "ts_startTime srow = as_startTime a" and "ts_endTime srow = now"
      and "ts_durationSeconds srow = (now - as_startTime a) div 1000"
      using stopActive_commit [of d uid a now F newId] by blast
    then show "\<exists>srow. fst (stopActive F now newId uid d) =
                 Inr (srow, include_project d (ts_projectId srow)) \<and>
              timeSessions (fst (snd (stopActive F now newId uid d))) =
                 timeSessions d @ [srow] \<and>
              ts_startTime srow = as_startTime a \<and>
              ts_endTime srow = now \<and>
              ts_durationSeconds srow = (ts_endTime srow - ts_startTime srow) div 1000"
      by (intro exI [of _ srow]) simp
  qed
  have stop_any:
    "stopActive F now newId uid d = (Inr (row, proj), d', ns) \<longrightarrow>
      ts_durationSeconds row = (ts_endTime row - ts_startTime row) div 1000 \<and>
      0 < ts_durationSeconds row \<and>
      timeSessions d' = timeSessions d @ [row]"
    using stopActive_success [of F now newId uid d row proj d' ns] by blast
  have update_runs:
    "updateSessionSchema ub \<and> \<not> F FindTimeSession \<and> \<not> F UpdateTimeSession \<and>
    distinct (map ts_id (timeSessions d)) \<and>
    find (\<lambda>r. ts_id r = sid \<and> ts_userId r = uid) (timeSessions d) = Some e \<and>
    check_project F d (ub_projectId ub) uid = None \<and>
    (supplied (ub_startTime ub) \<or> supplied (ub_endTime ub)) \<and>
    new_time parseDate (ub_startTime ub) (ts_startTime e) = Some newStart \<and>
    new_time parseDate (ub_endTime ub) (ts_endTime e) = Some newEnd \<longrightarrow>
      (0 \<le> (newEnd - newStart) div 1000 \<longrightarrow>
         (\<exists>urow. updateSession F parseDate uid sid ub d =
                   (Inr (urow, include_project d (ts_projectId urow)),
                    d\<lparr>timeSessions :=
                        map (\<lambda>x. if ts_id x = sid then urow else x) (timeSessions d)\<rparr>,
                    []) \<and>
                 ts_id urow = sid \<and>
                 ts_startTime urow = newStart \<and>
                 ts_endTime urow = newEnd \<and>
                 ts_durationSeconds urow = (newEnd - newStart) div 1000)) \<and>
      ((newEnd - newStart) div 1000 < 0 \<longrightarrow>
         updateSession F parseDate uid sid ub d = (Inl EndBeforeStart, d, []))"
  proof (intro impI conjI)
    assume h: "updateSessionSchema ub \<and> \<not> F FindTimeSession \<and> \<not> F UpdateTimeSession \<and>
      distinct (map ts_id (timeSessions d)) \<and>
      find (\<lambda>r. ts_id r = sid \<and> ts_userId r = uid) (timeSessions d) = Some e \<and>
      check_project F d (ub_projectId ub) uid = None \<and>
      (supplied (ub_startTime ub) \<or> supplied (ub_endTime ub)) \<and>
      new_time parseDate (ub_startTime ub) (ts_startTime e) = Some newStart \<and>
      new_time parseDate (ub_endTime ub) (ts_endTime e) = Some newEnd"
    then have run: "updateSession F parseDate uid sid ub d =
           (case updateData parseDate ub e of
              Inl err \<Rightarrow> (Inl err, d, [])
            | Inr ud \<Rightarrow>
                (Inr (apply_update ud e, include_project d (ts_projectId (apply_update ud e))),
                 d\<lparr>timeSessions :=
                     map (\<lambda>x. if ts_id x = sid then apply_update ud e else x) (timeSessions d)\<rparr>,
                 []))"
      using updateSession_run [of ub F d sid uid e parseDate] by blast
    from h have key: "ts_id e = sid"
      by (auto simp: find_Some_iff)
    note times = updateData_times [of ub parseDate e newStart newEnd]
    {
      assume "0 \<le> (newEnd - newStart) div 1000"
      with times(2) h obtain ud where
        "updateData parseDate ub e = Inr ud" and "ts_id (apply_update ud e) = ts_id e"
        and "ts_startTime (apply_update ud e) = newStart"
        and "ts_endTime (apply_update ud e) = newEnd"
        and "ts_durationSeconds (apply_update ud e) = (newEnd - newStart) div 1000"
        by blast
      with run key
      show "\<exists>urow. updateSession F parseDate uid sid ub d =
                   (Inr (urow, include_project d (ts_projectId urow)),
                    d\<lparr>timeSessions :=
                        map (\<lambda>x. if ts_id x = sid then urow else x) (timeSessions d)\<rparr>,
                    []) \<and>
                 ts_id urow = sid \<and>
                 ts_startTime urow = newStart \<and>
                 ts_endTime urow = newEnd \<and>
                 ts_durationSeconds urow = (newEnd - newStart) div 1000"
        by (intro exI [of _ "apply_update ud e"]) simp
    next
      assume "(newEnd - newStart) div 1000 < 0"
      with times(1) h have "updateData parseDate ub e = Inl EndBeforeStart"
        by blast
      with run show "updateSession F parseDate uid sid ub d = (Inl EndBeforeStart, d, [])"
        by simp
    }
  qed
  have update_any:
    "updateSession F parseDate uid sid ub d = (Inr (row, proj), d', ns) \<and>
    (supplied (ub_startTime ub) \<or> supplied (ub_endTime ub)) \<and>
    distinct (map ts_id (timeSessions d)) \<longrightarrow>
      ts_durationSeconds row = (ts_endTime row - ts_startTime row) div 1000 \<and>
      0 \<le> ts_durationSeconds row \<and>
      timeSessions d' = map (\<lambda>x. if ts_id x = sid then row else x) (timeSessions d)"
    using updateSession_success_store [of F parseDate uid sid ub d row proj d' ns] by blast
  have create_runs:
    "0 \<le> cb_durationSeconds cb \<and> (\<forall>p. cb_projectId cb = Value p \<longrightarrow> p \<noteq> []) \<and>
    check_project F d (cb_projectId cb) uid = None \<and> \<not> create_throws F d newId \<longrightarrow>
      createSession F newId uid cb d =
        (Inr (\<lparr>ts_id = newId,
               ts_description = cb_description cb,
               ts_startTime = cb_startTime cb,
               ts_endTime = cb_endTime cb,
               ts_durationSeconds = cb_durationSeconds cb,
               ts_mode = cb_mode cb,
               ts_projectId = (case cb_projectId cb of Value p \<Rightarrow> Some p | _ \<Rightarrow> None),
               ts_userId = uid\<rparr>,
              include_project d (case cb_projectId cb of Value p \<Rightarrow> Some p | _ \<Rightarrow> None)),
         d\<lparr>timeSessions := timeSessions d @
              [\<lparr>ts_id = newId,
                ts_description = cb_description cb,
                ts_startTime = cb_startTime cb,
                ts_endTime = cb_endTime cb,
                ts_durationSeconds = cb_durationSeconds cb,
                ts_mode = cb_mode cb,
                ts_projectId = (case cb_projectId cb of Value p \<Rightarrow> Some p | _ \<Rightarrow> None),
                ts_userId = uid\<rparr>]\<rparr>,
         [])"
    using createSession_run [of cb F d uid newId] by blast
  from stop_runs stop_any update_runs update_any create_runs show ?thesis
    by (intro conjI)
qed

theorem session_durations_witness:
  "activeSessions sample_db ''u1'' = Some sample_slot \<and>
   0 < elapsed_seconds 11000 (as_startTime sample_slot) \<and>
   \<not> no_faults FindActive \<and> \<not> create_throws no_faults sample_db ''t1'' \<and>
   \<not> no_faults DeleteActive \<and>
   map ts_durationSeconds
     (timeSessions (fst (snd (stopActive no_faults 11000 ''t1'' ''u1'' sample_db)))) = [10] \<and>
   updateSessionSchema end_body \<and> updateSessionSchema late_start_body \<and>
   \<not> no_faults FindTimeSession \<and> \<not> no_faults UpdateTimeSession \<and>
   distinct (map ts_id (timeSessions history_db)) \<and>
   find (\<lambda>r. ts_id r = ''t1'' \<and> ts_userId r = ''u1'') (timeSessions history_db) =
     Some sample_session \<and>
   check_project no_faults history_db (ub_projectId end_body) ''u1'' = None \<and>
   check_project no_faults history_db (ub_projectId late_start_body) ''u1'' = None \<and>
   supplied (ub_endTime end_body) \<and> supplied (ub_startTime late_start_body) \<and>
   new_time sample_parseDate (ub_startTime end_body) (ts_startTime sample_session) = Some 0 \<and>
   new_time sample_parseDate (ub_endTime end_body) (ts_endTime sample_session) = Some 25500 \<and>
   new_time sample_parseDate (ub_startTime late_start_body) (ts_startTime sample_session) =
     Some 25500 \<and>
   new_time sample_parseDate (ub_endTime late_start_body) (ts_endTime sample_session) =
     Some 10000 \<and>
   (0::int) \<le> (25500 - 0) div 1000 \<and> (10000 - 25500) div 1000 < (0::int) \<and>
   updateSession no_faults sample_parseDate ''u1'' ''t1'' end_body history_db =
     (Inr (sample_session\<lparr>ts_endTime := 25500, ts_durationSeconds := 25\<rparr>, None),
      history_db\<lparr>timeSessions :=
                   [sample_session\<lparr>ts_endTime := 25500, ts_durationSeconds := 25\<rparr>]\<rparr>,
      []) \<and>
   updateSession no_faults sample_parseDate ''u1'' ''t1'' late_start_body history_db =
     (Inl EndBeforeStart, history_db, []) \<and>
   0 \<le> cb_durationSeconds skewed_body \<and>
   check_project no_faults empty_db (cb_projectId skewed_body) ''u1'' = None \<and>
   \<not> create_throws no_faults empty_db ''t9'' \<and>
   map ts_durationSeconds
     (timeSessions (fst (snd (createSession no_faults ''t9'' ''u1'' skewed_body empty_db)))) = [999]"
  using session_durations
          [where F = no_faults and now = 11000 and newId = "''t1''" and uid = "''u1''"
             and d = sample_db and a = sample_slot
             and row = "promoted_session sample_slot 11000 ''t1'' ''u1''"
             and proj = None
             and d' = "sample_db\<lparr>timeSessions := [promoted_session sample_slot 11000 ''t1'' ''u1''],
                                activeSessions := Map.empty\<rparr>"
             and ns = "[''u1'']"]
        session_durations
          [where F = no_faults and parseDate = sample_parseDate and uid = "''u1''"
             and sid = "''t1''" and ub = end_body and d = history_db and e = sample_session
             and newStart = 0 and newEnd = 25500
             and row = "sample_session\<lparr>ts_endTime := 25500, ts_durationSeconds := 25\<rparr>"
             and proj = None
             and d' = "history_db\<lparr>timeSessions :=
                          [sample_session\<lparr>ts_endTime := 25500, ts_durationSeconds := 25\<rparr>]\<rparr>"
             and ns = "[]"]
        session_durations
          [where F = no_faults and parseDate = sample_parseDate and uid = "''u1''"
             and sid = "''t1''" and ub = late_start_body and d = history_db
             and e = sample_session and newStart = 25500 and newEnd = 10000]
        session_durations
          [where F = no_faults and newId = "''t9''" and uid = "''u1''" and cb = skewed_body
             and d = empty_db]
  unfolding sample_stop sample_update sample_create
  by (simp add: end_body_def late_start_body_def history_db_def sample_session_def
      promoted_session_def sample_slot_def sample_db_def empty_db_def skewed_body_def
      elapsed_seconds_def no_faults_def create_throws_def updateSessionSchema_def
      check_project_def new_time_def sample_parseDate_def)

text \<open>
  C5 as stated fails on the create handler: a request with start time 0, end time
  10000 and \<open>durationSeconds\<close> 999 is accepted, and the stored row has duration 999
  where its end time minus its start time is 10 seconds.
\<close>

theorem create_keeps_supplied_duration:
  "map ts_durationSeconds
     (timeSessions (fst (snd (createSession no_faults ''t9'' ''u1'' skewed_body empty_db)))) = [999] \<and>
   map (\<lambda>r. (ts_endTime r - ts_startTime r) div 1000)
     (timeSessions (fst (snd (createSession no_faults ''t9'' ''u1'' skewed_body empty_db)))) = [10] \<and>
   fst (createSession no_faults ''t9'' ''u1'' skewed_body empty_db) =
     Inr (\<lparr>ts_id = ''t9'', ts_description = None, ts_startTime = 0, ts_endTime = 10000,
           ts_durationSeconds = 999, ts_mode = Stopwatch, ts_projectId = None,
           ts_userId = ''u1''\<rparr>, None)"
  unfolding sample_create
  by simp

section \<open>Properties of the stream\<close>

text \<open>
  C6. Opening a connection makes one query of the store, whatever the connection's
  cache (it is new and empty), and, the query not failing, sends exactly one event that
  shows the register at that moment: with no active session the event has the active
  flag false and zero elapsed seconds; with an active session it carries the fields of
  the slot, the joined project and the elapsed whole seconds at the clock read after the
  query. The fetched slot is the connection's cache. This first event is part of opening,
  before the change listener and the interval exist.
\<close>

theorem open_stream_pushes_state:
  assumes "\<not> F FindActive"
  shows "queries (openStream F d uid now ct) = 1 \<and>
         (activeSessions d uid = None \<longrightarrow>
            sent (openStream F d uid now ct) = [InactivePayload 0] \<and>
            cachedState (openStream F d uid now ct) = Some None) \<and>
         (\<forall>a. activeSessions d uid = Some a \<longrightarrow>
            sent (openStream F d uid now ct) =
              [ActivePayload
                 \<lparr>ap_id = as_id a,
                  ap_startTime = as_startTime a,
                  ap_mode = as_mode a,
                  ap_projectId = as_projectId a,
                  ap_description = as_description a,
                  ap_targetSeconds = as_targetSeconds a,
                  ap_pomodoroPhase = as_pomodoroPhase a,
                  ap_pomodoroCycle = as_pomodoroCycle a,
                  ap_project = include_project d (as_projectId a),
                  ap_elapsedSeconds = (ct - as_startTime a) div 1000\<rparr>] \<and>
            cachedState (openStream F d uid now ct) =
              Some (Some (a, include_project d (as_projectId a))))"
  using assms
  by (simp add: openStream_def sendCurrentState_fetch state_event_def render_def
      elapsed_seconds_def)

theorem open_stream_pushes_state_witness:
  "\<not> no_faults FindActive \<and>
   activeSessions empty_db ''u1'' = None \<and>
   sent (openStream no_faults empty_db ''u1'' 5000 5001) = [InactivePayload 0] \<and>
   queries (openStream no_faults empty_db ''u1'' 5000 5001) = 1 \<and>
   activeSessions sample_db ''u1'' = Some sample_slot \<and>
   queries (openStream no_faults sample_db ''u1'' 5000 5001) = 1 \<and>
   sent (openStream no_faults sample_db ''u1'' 5000 5001) =
     [ActivePayload
        \<lparr>ap_id = ''a1'', ap_startTime = 1000, ap_mode = Pomodoro, ap_projectId = None,
         ap_description = Some (ascii ''write''), ap_targetSeconds = Some 1500,
         ap_pomodoroPhase = Some Work, ap_pomodoroCycle = 0, ap_project = None,
         ap_elapsedSeconds = 4\<rparr>]"
  using open_stream_pushes_state [of no_faults empty_db "''u1''" 5000 5001]
        open_stream_pushes_state [of no_faults sample_db "''u1''" 5000 5001]
  by (simp add: no_faults_def empty_db_def sample_db_def sample_slot_def include_project_def)

text \<open>
  C7. On a tick of a connection that is open and whose cache holds an active session,
  the handler sends one event whose elapsed seconds are now minus the cached start time
  in whole seconds and whose other fields are those of the cache. It makes no query (the
  handler has no access to the store, and the count of queries is unchanged) and leaves
  the cache and the time of the last query as they were.
\<close>

theorem tick_recomputes_elapsed_only:
  assumes "\<not> isClosed st" and "cachedState st = Some (Some (a, proj))"
  shows "tick now st =
           st\<lparr>sent := sent st @
                [ActivePayload
                   \<lparr>ap_id = as_id a,
                    ap_startTime = as_startTime a,
                    ap_mode = as_mode a,
                    ap_projectId = as_projectId a,
                    ap_description = as_description a,
                    ap_targetSeconds = as_targetSeconds a,
                    ap_pomodoroPhase = as_pomodoroPhase a,
                    ap_pomodoroCycle = as_pomodoroCycle a,
                    ap_project = proj,
                    ap_elapsedSeconds = (now - as_startTime a) div 1000\<rparr>]\<rparr> \<and>
         queries (tick now st) = queries st \<and>
         cachedState (tick now st) = cachedState st \<and>
         lastQueryTime (tick now st) = lastQueryTime st"
  using assms
  by (simp add: tick_def sendEvent_def render_def elapsed_seconds_def)

theorem tick_recomputes_elapsed_only_witness:
  "\<not> isClosed sample_stream \<and>
   cachedState sample_stream = Some (Some (sample_slot, None)) \<and>
   sent (tick 8500 sample_stream) =
     [ActivePayload
        \<lparr>ap_id = ''a1'', ap_startTime = 1000, ap_mode = Pomodoro, ap_projectId = None,
         ap_description = Some (ascii ''write''), ap_targetSeconds = Some 1500,
         ap_pomodoroPhase = Some Work, ap_pomodoroCycle = 0, ap_project = None,
         ap_elapsedSeconds = 7\<rparr>] \<and>
   queries (tick 8500 sample_stream) = 1"
  using tick_recomputes_elapsed_only [of sample_stream sample_slot None 8500]
  by (simp add: sample_stream_def sample_slot_def)

text \<open>
  C10. On a tick of a connection whose cache holds no active session (no cache yet, or a
  cached absence) nothing is sent and nothing changes. A tick never adds an inactive
  event to the events sent. The inactive event (active flag false, zero elapsed seconds)
  comes from the forced read of \<open>sendCurrentState\<close>, which the opening and the change
  handler call, when the register has no slot for the user.
\<close>

theorem tick_idle_silent:
  "(cachedState st = None \<or> cachedState st = Some None \<longrightarrow> tick now st = st) \<and>
   (\<forall>n. InactivePayload n \<in> set (sent (tick now st)) \<longrightarrow> InactivePayload n \<in> set (sent st)) \<and>
   (\<not> F FindActive \<and> activeSessions d (st_userId st) = None \<longrightarrow>
      sent (sendCurrentState F d True now ct st) = sent st @ [InactivePayload 0])"
proof (intro conjI impI allI)
  assume "cachedState st = None \<or> cachedState st = Some None"
  then show "tick now st = st"
    by (auto simp: tick_def)
next
  fix n
  assume "InactivePayload n \<in> set (sent (tick now st))"
  then show "InactivePayload n \<in> set (sent st)"
    by (auto simp: tick_def sendEvent_def render_def split: if_splits option.splits)
next
  assume "\<not> F FindActive \<and> activeSessions d (st_userId st) = None"
  then show "sent (sendCurrentState F d True now ct st) = sent st @ [InactivePayload 0]"
    by (simp add: sendCurrentState_fetch state_event_def)
qed

theorem tick_idle_silent_witness:
  "cachedState idle_stream = Some None \<and>
   tick 6000 idle_stream = idle_stream \<and>
   tick 7000 (tick 6000 idle_stream) = idle_stream \<and>
   InactivePayload 0 \<in> set (sent (tick 6000 idle_stream)) \<and>
   InactivePayload 0 \<in> set (sent idle_stream) \<and>
   \<not> no_faults FindActive \<and> activeSessions empty_db (st_userId idle_stream) = None \<and>
   sent (sendCurrentState no_faults empty_db True 6000 6000 idle_stream) =
     [InactivePayload 0, InactivePayload 0]"
  using tick_idle_silent [of idle_stream 6000 no_faults empty_db 6000]
        tick_idle_silent [of idle_stream 7000 no_faults empty_db 6000]
  by (simp add: idle_stream_def no_faults_def empty_db_def)

text \<open>
  C8, as the code has it. A read that is not forced and comes within 100 ms of the last
  query sends the cached slot and makes no query. A forced read always makes one query.
  The opening and the change handler force their reads, so a run of change notifications
  for the user of an open connection makes one query for each notification.
\<close>

theorem fresh_reads_query_the_store:
  "(\<not> forceQuery \<and> now - lastQueryTime st \<le> QUERY_CACHE_MS \<longrightarrow>
      sendCurrentState F d forceQuery now ct st =
        sendEvent (state_event (case cachedState st of None \<Rightarrow> None | Some slot \<Rightarrow> slot) ct) st \<and>
      queries (sendCurrentState F d forceQuery now ct st) = queries st) \<and>
   queries (sendCurrentState F d True now ct st) = Suc (queries st) \<and>
   (\<not> isClosed st \<longrightarrow> queries (onChanges F (st_userId st) es st) = queries st + length es)"
  using onChanges_queries [of st F es]
  by (simp add: sendCurrentState_forced)
     (simp add: sendCurrentState_def sendEvent_def)

theorem fresh_reads_query_the_store_witness:
  "\<not> False \<and> 5050 - lastQueryTime sample_stream \<le> QUERY_CACHE_MS \<and>
   queries (sendCurrentState no_faults sample_db False 5050 5050 sample_stream) = 1 \<and>
   \<not> isClosed sample_stream \<and>
   queries (onChanges no_faults ''u1'' [(sample_db, 5000, 5000), (sample_db, 5001, 5001)]
              sample_stream) = 3"
  using fresh_reads_query_the_store
          [of False 5050 sample_stream no_faults sample_db 5050
              "[(sample_db, 5000, 5000), (sample_db, 5001, 5001)]"]
  by (simp add: sample_stream_def QUERY_CACHE_MS_def sendEvent_def)

text \<open>
  C8 as stated fails: a connection opened at 5000 ms with the query made then, followed
  by three change notifications 1, 2 and 3 ms later, has made four queries, three of
  them within 100 ms of the query before.
\<close>

theorem burst_of_changes_queries_each_time:
  "queries (openStream no_faults sample_db ''u1'' 5000 5000) = 1 \<and>
   lastQueryTime (openStream no_faults sample_db ''u1'' 5000 5000) = 5000 \<and>
   queries (onChanges no_faults ''u1''
              [(sample_db, 5001, 5001), (sample_db, 5002, 5002), (sample_db, 5003, 5003)]
              (openStream no_faults sample_db ''u1'' 5000 5000)) = 4"
  by (simp add: openStream_def onChangeHandler_def sendCurrentState_def sendEvent_def
      activeSession_findUnique_include_def activeSession_findUnique_def no_faults_def
      sample_db_def)

end
